theory Spec2Isabelle
  imports Complex_Main "HOL-Library.Sublist" "HOL-Library.Char_ord" "HOL-Library.List_Lexorder"
begin

section \<open>Python text primitives\<close>

text \<open>
  The engine in \<^verbatim>\<open>backend/utils/docker_executor.py\<close> works on Python \<^verbatim>\<open>str\<close> values.
  A text is modelled as a \<^typ>\<open>string\<close> whose characters are the code points 0..255;
  the character classes below are Python's (\<^verbatim>\<open>str.isspace\<close>, \<^verbatim>\<open>str.lower\<close>,
  \<^verbatim>\<open>str.splitlines\<close>, and the classes \<^verbatim>\<open>\s\<close>, \<^verbatim>\<open>\w\<close> of the \<^verbatim>\<open>re\<close> module on
  \<^verbatim>\<open>str\<close> patterns) restricted to that range.
\<close>

definition is_space :: "char \<Rightarrow> bool" where
  "is_space c = ((of_char c :: nat) \<in> set [9, 10, 11, 12, 13, 28, 29, 30, 31, 32, 133, 160])"

definition is_linebreak :: "char \<Rightarrow> bool" where
  "is_linebreak c = ((of_char c :: nat) \<in> set [10, 11, 12, 13, 28, 29, 30, 133])"

definition is_word :: "char \<Rightarrow> bool" where
  "is_word c = (let n = (of_char c :: nat) in
     (48 \<le> n \<and> n \<le> 57) \<or> (65 \<le> n \<and> n \<le> 90) \<or> n = 95 \<or> (97 \<le> n \<and> n \<le> 122)
     \<or> n \<in> set [170, 178, 179, 181, 185, 186, 188, 189, 190]
     \<or> (192 \<le> n \<and> n \<noteq> 215 \<and> n \<noteq> 247))"

definition lower_char :: "char \<Rightarrow> char" where
  "lower_char c = (let n = (of_char c :: nat) in
     if (65 \<le> n \<and> n \<le> 90) \<or> (192 \<le> n \<and> n \<le> 222 \<and> n \<noteq> 215)
     then char_of (n + 32) else c)"

definition lower :: "string \<Rightarrow> string" where
  "lower s = map lower_char s"

definition lstrip :: "string \<Rightarrow> string" where
  "lstrip s = dropWhile is_space s"

definition rstrip :: "string \<Rightarrow> string" where
  "rstrip s = rev (dropWhile is_space (rev s))"

definition strip :: "string \<Rightarrow> string" where
  "strip s = lstrip (rstrip s)"

text \<open>\<^verbatim>\<open>p in s\<close> on texts: \<^term>\<open>p\<close> occurs in \<^term>\<open>s\<close> as a contiguous block.\<close>

fun isin :: "string \<Rightarrow> string \<Rightarrow> bool" where
  "isin p [] = (p = [])"
| "isin p (c # cs) = (prefix p (c # cs) \<or> isin p cs)"

text \<open>\<^verbatim>\<open>sep.join(xs)\<close>.\<close>

fun join :: "string \<Rightarrow> string list \<Rightarrow> string" where
  "join sep [] = []"
| "join sep [x] = x"
| "join sep (x # y # ys) = x @ sep @ join sep (y # ys)"

text \<open>
  \<^verbatim>\<open>s.splitlines()\<close>: a line ends at a line boundary, \<^verbatim>\<open>\r\n\<close> counts as one boundary,
  and a text that ends with a boundary has no empty last line. The first argument is the
  line read so far.
\<close>

fun splitlines_from :: "string \<Rightarrow> string \<Rightarrow> string list" where
  "splitlines_from cur [] = (if cur = [] then [] else [cur])"
| "splitlines_from cur (c # cs) =
     (if c = CHR 0x0D then
        (case cs of
           d # ds \<Rightarrow> if d = CHR 0x0A then cur # splitlines_from [] ds
                     else cur # splitlines_from [] cs
         | [] \<Rightarrow> cur # splitlines_from [] cs)
      else if is_linebreak c then cur # splitlines_from [] cs
      else splitlines_from (cur @ [c]) cs)"

definition splitlines :: "string \<Rightarrow> string list" where
  "splitlines s = splitlines_from [] s"

text \<open>\<^verbatim>\<open>str(n)\<close> of an integer, for the f-strings.\<close>

fun show_nat :: "nat \<Rightarrow> string" where
  "show_nat n = (if n < 10 then [char_of (48 + n)] else show_nat (n div 10) @ [char_of (48 + n mod 10)])"

definition show_int :: "int \<Rightarrow> string" where
  "show_int i = (if i < 0 then CHR ''-'' # show_nat (nat (- i)) else show_nat (nat i))"

section \<open>Language detection\<close>

definition TS_PATTERNS :: "string list" where
  "TS_PATTERNS =
    ['': string'', '': number'', '': boolean'', '': void'', '': never'', '': any'',
     '': null'', '': undefined'', '': object'',
     ''interface '', ''type '', ''enum '',
     '': string[]'', '': number[]'', '': boolean[]'',
     ''as string'', ''as number'', ''as boolean'',
     ''<T>'', ''<T,'', ''<T extends'',
     ''@ts-'', ''// @ts'',
     ''private '', ''public '', ''protected '', ''readonly '',
     '': Promise<'', '': Array<'',
     ''export interface'', ''export type'', ''export enum'',
     ''@ts-expect-error'', ''@ts-ignore'']"

text \<open>
  \<^verbatim>\<open>re.search(r"\bpublic\s+class\b", combined)\<close>. \<^verbatim>\<open>\s+\<close> is greedy and the character
  after the blanks must be \<^verbatim>\<open>c\<close>, so no shorter run of blanks can match. The word
  boundary before \<^verbatim>\<open>p\<close> holds when the previous character is absent or not a word
  character, the one after \<^verbatim>\<open>class\<close> when the next character is absent or not a word
  character.
\<close>

definition public_class_here :: "string \<Rightarrow> bool" where
  "public_class_here s =
     (prefix ''public'' s \<and>
      (let r = drop 6 s; r' = dropWhile is_space r in
         r' \<noteq> r \<and> prefix ''class'' r' \<and>
         (case drop 5 r' of [] \<Rightarrow> True | c # _ \<Rightarrow> \<not> is_word c)))"

fun search_public_class :: "char option \<Rightarrow> string \<Rightarrow> bool" where
  "search_public_class prev [] = False"
| "search_public_class prev (c # cs) =
     (((case prev of None \<Rightarrow> True | Some p \<Rightarrow> \<not> is_word p) \<and> public_class_here (c # cs))
      \<or> search_public_class (Some c) cs)"

definition detect_language :: "string \<Rightarrow> string \<Rightarrow> string option \<Rightarrow> string" where
  "detect_language source_code test_code language =
     (let lang = strip (lower (case language of None \<Rightarrow> [] | Some l \<Rightarrow> l)) in
      if lang \<in> set [''python'', ''java''] then lang
      else
        let combined = source_code @ [CHR 0x0A] @ test_code;
            has_ts_syntax = list_ex (\<lambda>p. isin p combined) TS_PATTERNS in
        if lang = ''typescript'' \<or> lang = ''ts'' \<or> has_ts_syntax then ''typescript''
        else if lang \<in> set [''javascript'', ''js''] then ''javascript''
        else if lang \<noteq> [] then lang
        else
          let has_public_class = search_public_class None combined;
              has_java_imports = (isin ''import java.'' combined \<or> isin ''import org.'' combined) in
          if has_public_class \<and> has_java_imports then ''java''
          else if list_ex (\<lambda>x. isin x combined)
                    [''describe('', ''it('', ''test('', ''expect('', ''jest.'', ''require('']
               then (if has_ts_syntax then ''typescript'' else ''javascript'')
          else ''python'')"

definition recognized_languages :: "string list" where
  "recognized_languages = [''python'', ''java'', ''typescript'', ''ts'', ''javascript'', ''js'']"

definition has_ts_marker :: "string \<Rightarrow> string \<Rightarrow> bool" where
  "has_ts_marker source_code test_code =
     list_ex (\<lambda>p. isin p (source_code @ [CHR 0x0A] @ test_code)) TS_PATTERNS"

section \<open>Requirements merging\<close>

text \<open>
  \<^verbatim>\<open>_merge_requirements(user_req, auto_req)\<close>. The set \<^verbatim>\<open>combined\<close> of lower-cased
  entries is kept as a list and only tested for membership. \<^verbatim>\<open>None\<close> and the empty text
  are the same user part (\<^verbatim>\<open>user_req or ""\<close>).
\<close>

definition user_keys :: "string \<Rightarrow> string list" where
  "user_keys user_req =
     map lower (filter (\<lambda>line. line \<noteq> [] \<and> \<not> prefix ''#'' line) (map strip (splitlines user_req)))"

fun auto_loop :: "string list \<Rightarrow> string list \<Rightarrow> string list" where
  "auto_loop combined [] = []"
| "auto_loop combined (l # ls) =
     (let line = strip l in
      if line \<noteq> [] \<and> lower line \<notin> set combined
      then line # auto_loop (lower line # combined) ls
      else auto_loop combined ls)"

definition merge_requirements :: "string option \<Rightarrow> string \<Rightarrow> string option" where
  "merge_requirements user_req auto_req =
     (let u = (case user_req of None \<Rightarrow> [] | Some r \<Rightarrow> r);
          combined = user_keys u;
          auto_lines = auto_loop combined (splitlines auto_req);
          all_lines = filter (\<lambda>l. strip l \<noteq> []) (splitlines u) @ auto_lines
      in if all_lines = [] then None else Some (join [CHR 0x0A] all_lines))"

text \<open>The list \<^verbatim>\<open>all_lines\<close> of \<^verbatim>\<open>_merge_requirements\<close>, named for the proofs.\<close>

definition all_lines :: "string option \<Rightarrow> string \<Rightarrow> string list" where
  "all_lines user_req auto_req =
     (let u = (case user_req of None \<Rightarrow> [] | Some r \<Rightarrow> r)
      in filter (\<lambda>l. strip l \<noteq> []) (splitlines u) @ auto_loop (user_keys u) (splitlines auto_req))"

section \<open>Dependency inference\<close>

text \<open>
  \<^verbatim>\<open>_auto_detect_pip_requirements(test_code, exclude)\<close> reads the import statements of the
  syntax tree that \<^verbatim>\<open>ast.parse\<close> builds. The tree is an input of the model: the list of
  its \<^verbatim>\<open>Import\<close> and \<^verbatim>\<open>ImportFrom\<close> nodes in the order of \<^verbatim>\<open>ast.walk\<close>, or \<^verbatim>\<open>None\<close> when
  the parser raises \<^verbatim>\<open>SyntaxError\<close>. An \<^verbatim>\<open>Import\<close> node carries the names of its aliases,
  an \<^verbatim>\<open>ImportFrom\<close> node its module (if any), its level and the imported names.
\<close>

datatype import_node =
  Import "string list"
| ImportFrom "string option" nat "string list"

definition IMPORT_TO_PIP :: "(string \<times> string) list" where
  "IMPORT_TO_PIP =
    [(''PIL'', ''Pillow''), (''cv2'', ''opencv-python''), (''sklearn'', ''scikit-learn''),
     (''bs4'', ''beautifulsoup4''), (''serial'', ''pyserial''), (''yaml'', ''PyYAML''),
     (''dateutil'', ''python-dateutil''), (''dotenv'', ''python-dotenv''),
     (''Crypto'', ''pycryptodome''), (''nacl'', ''PyNaCl''), (''google'', ''google-cloud''),
     (''boto3'', ''boto3''), (''botocore'', ''botocore''), (''pymysql'', ''PyMySQL''),
     (''psycopg2'', ''psycopg2-binary''), (''motor'', ''motor''), (''aiohttp'', ''aiohttp''),
     (''httpx'', ''httpx''), (''pydantic'', ''pydantic''), (''fastapi'', ''fastapi''),
     (''starlette'', ''starlette''), (''celery'', ''celery''), (''redis'', ''redis''),
     (''elasticsearch'', ''elasticsearch''), (''mongoengine'', ''mongoengine''),
     (''passlib'', ''passlib''), (''jwt'', ''PyJWT''), (''freezegun'', ''freezegun''),
     (''faker'', ''Faker''), (''factory_boy'', ''factory_boy''), (''hypothesis'', ''hypothesis''),
     (''responses'', ''responses''), (''moto'', ''moto''), (''pytest_mock'', ''pytest-mock''),
     (''respx'', ''respx''), (''time_machine'', ''time-machine'')]"

text \<open>
  \<^verbatim>\<open>_STDLIB_MODULES\<close> is the interpreter's \<^verbatim>\<open>sys.stdlib_module_names\<close> (empty where the
  interpreter has none), a parameter here, joined with the names listed in the source.
\<close>

definition STDLIB_MODULES :: "string list \<Rightarrow> string list" where
  "STDLIB_MODULES sys_stdlib_module_names = sys_stdlib_module_names @
    [''os'', ''sys'', ''re'', ''json'', ''datetime'', ''time'', ''collections'', ''functools'',
     ''itertools'', ''typing'', ''unittest'', ''pytest'', ''logging'', ''pathlib'', ''subprocess'',
     ''tempfile'', ''shutil'', ''uuid'', ''random'', ''math'', ''decimal'', ''statistics'',
     ''hashlib'', ''hmac'', ''secrets'', ''urllib'', ''io'', ''abc'', ''copy'', ''dataclasses'',
     ''enum'', ''contextlib'', ''threading'', ''multiprocessing'', ''socket'', ''ssl'',
     ''struct'', ''base64'', ''binascii'', ''codecs'', ''csv'', ''xml'', ''html'', ''http'',
     ''email'', ''mimetypes'', ''builtins'', ''warnings'', ''weakref'', ''gc'', ''inspect'',
     ''ast'', ''dis'', ''tokenize'', ''importlib'', ''pkgutil'', ''site'', ''traceback'',
     ''pprint'', ''textwrap'', ''string'', ''difflib'', ''fnmatch'', ''glob'', ''zipfile'',
     ''tarfile'', ''gzip'', ''bz2'', ''lzma'', ''zlib'', ''sqlite3'', ''configparser'',
     ''argparse'', ''getopt'', ''shlex'', ''operator'', ''numbers'', ''array'', ''queue'',
     ''heapq'', ''bisect'', ''calendar'', ''locale'', ''gettext'', ''platform'', ''signal'',
     ''mock'', ''_pytest'', ''conftest'',
     ''pytest'', ''flask'', ''requests'', ''werkzeug'']"

text \<open>\<^verbatim>\<open>name.split(".")[0]\<close>.\<close>

definition first_component :: "string \<Rightarrow> string" where
  "first_component name = takeWhile (\<lambda>c. c \<noteq> CHR ''.'') name"

text \<open>The names added to \<^verbatim>\<open>top_level_imports\<close>, in the order of the walk.\<close>

fun node_imports :: "import_node \<Rightarrow> string list" where
  "node_imports (Import names) = map first_component names"
| "node_imports (ImportFrom module_name level names) =
     (case module_name of
        None \<Rightarrow> []
      | Some m \<Rightarrow> if m \<noteq> [] \<and> level = 0 then [first_component m] else [])"

definition collect_imports :: "import_node list \<Rightarrow> string list" where
  "collect_imports nodes = concat (map node_imports nodes)"

definition pip_name :: "string \<Rightarrow> string" where
  "pip_name m = (case map_of IMPORT_TO_PIP m of None \<Rightarrow> m | Some p \<Rightarrow> p)"

text \<open>
  The loop \<^verbatim>\<open>for mod in sorted(top_level_imports)\<close>: the set is read in ascending order
  of its names, each name once; \<^verbatim>\<open>exclude\<close> is \<^verbatim>\<open>None\<close> or a set, both lists here
  (\<^verbatim>\<open>None\<close> the empty one).
\<close>

definition selected_modules :: "string list \<Rightarrow> import_node list \<Rightarrow> string list \<Rightarrow> string list" where
  "selected_modules sys_stdlib_module_names nodes exclude =
     filter (\<lambda>m. m \<notin> set (STDLIB_MODULES sys_stdlib_module_names) \<and> m \<notin> set exclude)
       (sort (remdups (collect_imports nodes)))"

definition auto_detect_packages :: "string list \<Rightarrow> import_node list \<Rightarrow> string list \<Rightarrow> string list" where
  "auto_detect_packages sys_stdlib_module_names nodes exclude =
     map pip_name (selected_modules sys_stdlib_module_names nodes exclude)"

definition auto_detect_pip_requirements ::
  "string list \<Rightarrow> import_node list option \<Rightarrow> string list \<Rightarrow> string" where
  "auto_detect_pip_requirements sys_stdlib_module_names parsed exclude =
     (case parsed of
        None \<Rightarrow> []
      | Some nodes \<Rightarrow> join [CHR 0x0A] (auto_detect_packages sys_stdlib_module_names nodes exclude))"

text \<open>
  The package list the specification describes: the same selection and mapping, the
  names taken in the order in which the walk discovers them.
\<close>

definition packages_in_discovery_order :: "string list \<Rightarrow> import_node list \<Rightarrow> string list \<Rightarrow> string list" where
  "packages_in_discovery_order sys_stdlib_module_names nodes exclude =
     map pip_name
       (filter (\<lambda>m. m \<notin> set (STDLIB_MODULES sys_stdlib_module_names) \<and> m \<notin> set exclude)
          (remdups (rev (remdups (rev (collect_imports nodes))))))"

section \<open>Rewriting of placeholder imports\<close>

text \<open>
  \<^verbatim>\<open>re.sub(pattern, repl, text)\<close> reads the text from left to right; where the pattern
  matches, the match is replaced and the reading goes on behind it, elsewhere one
  character is copied. A pattern is given by its matcher: from the character before the
  position (for \<^verbatim>\<open>^\<close>) and the text from the position on, to what the match captures and
  how long it is. No pattern below matches the empty text.
\<close>

datatype 'a segment = Lit char | Match 'a string

fun scan :: "(char option \<Rightarrow> string \<Rightarrow> ('a \<times> nat) option) \<Rightarrow> nat \<Rightarrow> char option \<Rightarrow> string
               \<Rightarrow> 'a segment list" where
  "scan matcher k prev [] = []"
| "scan matcher k prev (c # cs) =
     (if k > 0 then scan matcher (k - 1) (Some c) cs
      else
        case matcher prev (c # cs) of
          Some (g, n) \<Rightarrow> Match g (take n (c # cs)) # scan matcher (n - 1) (Some c) cs
        | None \<Rightarrow> Lit c # scan matcher 0 (Some c) cs)"

fun render :: "('a \<Rightarrow> string \<Rightarrow> string) \<Rightarrow> 'a segment \<Rightarrow> string" where
  "render repl (Lit c) = [c]"
| "render repl (Match g matched) = repl g matched"

definition re_sub ::
  "(char option \<Rightarrow> string \<Rightarrow> ('a \<times> nat) option) \<Rightarrow> ('a \<Rightarrow> string \<Rightarrow> string) \<Rightarrow> string \<Rightarrow> string" where
  "re_sub matcher repl s = concat (map (render repl) (scan matcher 0 None s))"

definition ALLOWED_REWRITE_MODULES :: "string list" where
  "ALLOWED_REWRITE_MODULES = [''app'', ''main'', ''your_module'', ''module'', ''solution'', ''program'']"



text \<open>\<^verbatim>\<open>_safe_rewrite_imports_to_source\<close>, with its replacement function \<^verbatim>\<open>repl\<close>.\<close>

definition repl :: "string \<Rightarrow> string \<Rightarrow> string" where
  "repl m matched = (if m \<in> set ALLOWED_REWRITE_MODULES then ''from source import'' else matched)"












section \<open>Decoded JSON and the structured test list\<close>

text \<open>
  The values \<^verbatim>\<open>json.loads\<close> returns: \<^verbatim>\<open>None\<close>, booleans, integers, floats (the finite
  ones, by their exact value), strings, lists and dictionaries (by their items).
\<close>

datatype json =
  JNull
| JBool bool
| JInt int
| JFloat rat
| JStr string
| JArr "json list"
| JObj "(string \<times> json) list"

datatype py_exception = AttributeError | TypeError | ValueError

text \<open>Sequencing of steps that may raise: the first exception ends the computation.\<close>

definition and_then :: "py_exception + 'a \<Rightarrow> ('a \<Rightarrow> py_exception + 'b) \<Rightarrow> py_exception + 'b" where
  "and_then r f = (case r of Inl e \<Rightarrow> Inl e | Inr x \<Rightarrow> f x)"

fun for_each :: "('a \<Rightarrow> py_exception + 'b) \<Rightarrow> 'a list \<Rightarrow> py_exception + 'b list" where
  "for_each f [] = Inr []"
| "for_each f (x # xs) =
     (case f x of
        Inl e \<Rightarrow> Inl e
      | Inr y \<Rightarrow> (case for_each f xs of Inl e \<Rightarrow> Inl e | Inr ys \<Rightarrow> Inr (y # ys)))"

text \<open>Truth value of a decoded value, and \<^verbatim>\<open>a or b\<close>.\<close>

fun truthy :: "json \<Rightarrow> bool" where
  "truthy JNull = False"
| "truthy (JBool b) = b"
| "truthy (JInt i) = (i \<noteq> 0)"
| "truthy (JFloat q) = (q \<noteq> 0)"
| "truthy (JStr s) = (s \<noteq> [])"
| "truthy (JArr xs) = (xs \<noteq> [])"
| "truthy (JObj kvs) = (kvs \<noteq> [])"

definition py_or :: "json \<Rightarrow> json \<Rightarrow> json" where
  "py_or a b = (if truthy a then a else b)"

text \<open>\<^verbatim>\<open>d.get(key, default)\<close>: only a dictionary has the method.\<close>

fun dict_get :: "json \<Rightarrow> string \<Rightarrow> json \<Rightarrow> py_exception + json" where
  "dict_get (JObj kvs) key dflt = Inr (case map_of kvs key of None \<Rightarrow> dflt | Some v \<Rightarrow> v)"
| "dict_get _ key dflt = Inl AttributeError"

text \<open>
  \<^verbatim>\<open>for x in v\<close>: a list gives its elements, a string its characters, a dictionary its
  keys; the other values are not iterable.
\<close>

fun iterate :: "json \<Rightarrow> py_exception + json list" where
  "iterate (JArr xs) = Inr xs"
| "iterate (JStr s) = Inr (map (\<lambda>c. JStr [c]) s)"
| "iterate (JObj kvs) = Inr (map (\<lambda>kv. JStr (fst kv)) kvs)"
| "iterate _ = Inl TypeError"

text \<open>
  \<^verbatim>\<open>int(s)\<close> on a text: blanks around, an optional sign, decimal digits with single
  underscores between digits. The blanks \<^verbatim>\<open>int\<close> skips are those of C (tab to carriage
  return, space) and the blanks outside ASCII (U+0085, U+00A0); the separators U+001C
  to U+001F, which \<^verbatim>\<open>str.strip\<close> removes, are not among them. A text with more digits than
  \<^verbatim>\<open>sys.get_int_max_str_digits()\<close>, 4300 unless configured, raises \<^verbatim>\<open>ValueError\<close> like any
  other text that is not a number.
\<close>

definition is_digit :: "char \<Rightarrow> bool" where
  "is_digit c = (48 \<le> (of_char c :: nat) \<and> (of_char c :: nat) \<le> 57)"

definition digit_value :: "char \<Rightarrow> int" where
  "digit_value c = int (of_char c) - 48"

definition int_max_str_digits :: nat where
  "int_max_str_digits = 4300"

definition int_space :: "char \<Rightarrow> bool" where
  "int_space c = ((of_char c :: nat) \<in> set [0x09, 0x0A, 0x0B, 0x0C, 0x0D, 0x20, 0x85, 0xA0])"

fun digits_from :: "bool \<Rightarrow> int \<Rightarrow> string \<Rightarrow> int option" where
  "digits_from after_digit acc [] = (if after_digit then Some acc else None)"
| "digits_from after_digit acc (c # cs) =
     (if is_digit c then digits_from True (10 * acc + digit_value c) cs
      else if c = CHR ''_'' \<and> after_digit then digits_from False acc cs
      else None)"

definition py_int :: "string \<Rightarrow> int option" where
  "py_int s =
     (case rev (dropWhile int_space (rev (dropWhile int_space s))) of
        [] \<Rightarrow> None
      | c # cs \<Rightarrow>
          if int_max_str_digits < length (filter is_digit (c # cs)) then None
          else if c = CHR ''-'' then map_option uminus (digits_from False 0 cs)
          else if c = CHR ''+'' then digits_from False 0 cs
          else digits_from False 0 (c # cs))"

text \<open>\<^verbatim>\<open>int(g)\<close> on a group matched by \<^verbatim>\<open>\d+\<close>.\<close>

definition digits_value :: "string \<Rightarrow> int" where
  "digits_value ds = foldl (\<lambda>acc d. 10 * acc + digit_value d) 0 ds"

definition int_of_digits :: "string \<Rightarrow> py_exception + int" where
  "int_of_digits ds =
     (if int_max_str_digits < length ds then Inl ValueError else Inr (digits_value ds))"

text \<open>\<^verbatim>\<open>int(v)\<close> on a decoded value; a float is truncated towards zero.\<close>

fun int_of_json :: "json \<Rightarrow> py_exception + int" where
  "int_of_json (JInt i) = Inr i"
| "int_of_json (JFloat q) = Inr (if 0 \<le> q then \<lfloor>q\<rfloor> else \<lceil>q\<rceil>)"
| "int_of_json (JBool b) = Inr (if b then 1 else 0)"
| "int_of_json (JStr s) = (case py_int s of None \<Rightarrow> Inl ValueError | Some i \<Rightarrow> Inr i)"
| "int_of_json _ = Inl TypeError"

text \<open>\<^verbatim>\<open>"\n".join(v)\<close>: every item of the iteration must be a string.\<close>

fun the_str :: "json \<Rightarrow> py_exception + string" where
  "the_str (JStr s) = Inr s"
| "the_str _ = Inl TypeError"

definition join_lines :: "json \<Rightarrow> py_exception + string" where
  "join_lines v =
     and_then (iterate v) (\<lambda>items.
     and_then (for_each the_str items) (\<lambda>strs. Inr (join [CHR 0x0A] strs)))"

text \<open>
  One entry of the structured test list, with the keys of the source's dictionary. The
  name and the error are decoded values as they come (\<^term>\<open>Value JNull\<close> is \<^verbatim>\<open>None\<close>);
  \<^term>\<open>StrOf v\<close> stands for the text \<^verbatim>\<open>str(v)\<close>, which is never empty.
\<close>

datatype error_value = Value json | StrOf json

record test_case =
  name :: json
  status :: string
  duration :: int
  description :: json
  error :: error_value

fun error_truthy :: "error_value \<Rightarrow> bool" where
  "error_truthy (Value v) = truthy v"
| "error_truthy (StrOf v) = True"

subsection \<open>Jest\<close>

definition jest_case :: "json \<Rightarrow> py_exception + test_case" where
  "jest_case t =
     and_then (dict_get t ''fullName'' JNull) (\<lambda>fullName.
     and_then (dict_get t ''title'' JNull) (\<lambda>title.
     and_then (dict_get t ''status'' (JStr ''unknown'')) (\<lambda>status_raw.
     and_then (dict_get t ''duration'' JNull) (\<lambda>d.
     and_then (dict_get t ''failureMessages'' (JArr [])) (\<lambda>failure_msgs.
     and_then (if truthy failure_msgs
               then and_then (join_lines failure_msgs) (\<lambda>s. Inr (Value (JStr s)))
               else Inr (Value JNull)) (\<lambda>err.
     and_then (int_of_json (py_or d (JInt 0))) (\<lambda>dur.
       Inr \<lparr>name = py_or fullName (py_or title (JStr ''unknown'')),
            status = (if status_raw = JStr ''passed'' then ''passed'' else ''failed''),
            duration = dur,
            description = py_or fullName (py_or title (JStr ''unknown'')),
            error = err\<rparr>)))))))"

definition jest_suite :: "json \<Rightarrow> py_exception + test_case list" where
  "jest_suite suite =
     and_then (dict_get suite ''testResults'' (JArr [])) (\<lambda>rs.
     and_then (iterate rs) (\<lambda>ts. for_each jest_case ts))"

definition jest_json_to_tests :: "json \<Rightarrow> py_exception + test_case list" where
  "jest_json_to_tests data =
     and_then (dict_get data ''testResults'' (JArr [])) (\<lambda>rs.
     and_then (iterate rs) (\<lambda>suites.
     and_then (for_each jest_suite suites) (\<lambda>per_suite. Inr (concat per_suite))))"

subsection \<open>Mocha\<close>

definition mocha_title :: "json \<Rightarrow> py_exception + json" where
  "mocha_title t =
     and_then (dict_get t ''fullTitle'' JNull) (\<lambda>fullTitle.
     and_then (dict_get t ''title'' JNull) (\<lambda>title.
       Inr (py_or fullTitle (py_or title (JStr ''unknown'')))))"

definition mocha_duration :: "json \<Rightarrow> py_exception + int" where
  "mocha_duration t =
     and_then (dict_get t ''duration'' JNull) (\<lambda>d. int_of_json (py_or d (JInt 0)))"

definition mocha_pass_case :: "json \<Rightarrow> py_exception + test_case" where
  "mocha_pass_case t =
     and_then (mocha_title t) (\<lambda>title.
     and_then (mocha_duration t) (\<lambda>dur.
       Inr \<lparr>name = title, status = ''passed'', duration = dur, description = title,
            error = Value JNull\<rparr>))"

definition mocha_failure_case :: "json \<Rightarrow> py_exception + test_case" where
  "mocha_failure_case t =
     and_then (mocha_title t) (\<lambda>title.
     and_then (dict_get t ''err'' (JObj [])) (\<lambda>err_obj.
     and_then (dict_get err_obj ''message'' JNull) (\<lambda>message.
     and_then (dict_get err_obj ''stack'' JNull) (\<lambda>stack.
     and_then (mocha_duration t) (\<lambda>dur.
       Inr \<lparr>name = title, status = ''failed'', duration = dur, description = title,
            error = (if truthy message then Value message
                     else if truthy stack then Value stack
                     else StrOf err_obj)\<rparr>)))))"

definition mocha_pending_case :: "json \<Rightarrow> py_exception + test_case" where
  "mocha_pending_case t =
     and_then (mocha_title t) (\<lambda>title.
       Inr \<lparr>name = title, status = ''failed'', duration = 0, description = title,
            error = Value (JStr ''Test was pending/skipped'')\<rparr>)"

definition mocha_section ::
  "json \<Rightarrow> string \<Rightarrow> (json \<Rightarrow> py_exception + test_case) \<Rightarrow> py_exception + test_case list" where
  "mocha_section data key to_case =
     and_then (dict_get data key (JArr [])) (\<lambda>v.
     and_then (iterate v) (\<lambda>ts. for_each to_case ts))"

definition mocha_json_to_tests :: "json \<Rightarrow> py_exception + test_case list" where
  "mocha_json_to_tests data =
     and_then (mocha_section data ''passes'' mocha_pass_case) (\<lambda>ps.
     and_then (mocha_section data ''failures'' mocha_failure_case) (\<lambda>fs.
     and_then (mocha_section data ''pending'' mocha_pending_case) (\<lambda>qs.
       Inr (ps @ fs @ qs))))"

subsection \<open>The summary built from the structured test list\<close>

text \<open>
  The dictionary \<^verbatim>\<open>test_results_json\<close>: the Java path fills the summary, the JavaScript
  path adds the key \<^verbatim>\<open>tests\<close>. The entries of \<open>failures\<close> are texts on the Java path; on
  the JavaScript path an entry \<open>(n, e)\<close> stands for the text \<^verbatim>\<open>f"{n}: {e}"\<close>.
\<close>

record 'f test_summary =
  total :: int
  passed :: int
  failed :: int
  skipped :: int
  failures :: "'f list"

record 'f js_test_results = "'f test_summary" +
  tests :: "test_case list"

text \<open>\<^verbatim>\<open>_build_js_test_results\<close>.\<close>

definition build_js_test_results :: "test_case list \<Rightarrow> (json \<times> error_value) js_test_results" where
  "build_js_test_results ts =
     (let n = int (length ts);
          p = int (length (filter (\<lambda>t. status t = ''passed'') ts))
      in \<lparr>total = n, passed = p, failed = n - p, skipped = 0,
          failures = map (\<lambda>t. (name t, error t))
                       (filter (\<lambda>t. status t = ''failed'' \<and> error_truthy (error t)) ts),
          tests = ts\<rparr>)"

text \<open>The success flag of \<^verbatim>\<open>execute_javascript_tests\<close>.\<close>

definition js_success :: "int \<Rightarrow> (json \<times> error_value) js_test_results \<Rightarrow> bool" where
  "js_success returncode test_results_json =
     (if total test_results_json > 0 then failed test_results_json = 0 else returncode = 0)"

section \<open>Surefire reports (Java path)\<close>

text \<open>
  What \<^verbatim>\<open>execute_java_tests\<close> reads after the container has run: the directory
  \<^verbatim>\<open>target/surefire-reports\<close>, absent or a listing of files. A file is its name and the
  root element \<^verbatim>\<open>ET.parse\<close> gives, \<^verbatim>\<open>None\<close> when the parser raises. Of the root the code
  reads the serialised text, four attributes and the \<^verbatim>\<open>testcase\<close> children.
\<close>

record xml_element =
  elem_message :: "string option"
  elem_text :: "string option"

record xml_testcase =
  case_name :: "string option"
  classname :: "string option"
  failure_elem :: "xml_element option"
  error_elem :: "xml_element option"

record xml_root =
  serialised :: string
  tests_attr :: "string option"
  failures_attr :: "string option"
  errors_attr :: "string option"
  skipped_attr :: "string option"
  testcases :: "xml_testcase list"

text \<open>\<^verbatim>\<open>int(root.get(key, 0))\<close>: \<^verbatim>\<open>None\<close> stands for \<^verbatim>\<open>ValueError\<close>.\<close>

definition attr_int :: "string option \<Rightarrow> int option" where
  "attr_int a = (case a of None \<Rightarrow> Some 0 | Some s \<Rightarrow> py_int s)"

text \<open>\<^verbatim>\<open>str(x)\<close> of an attribute that may be \<^verbatim>\<open>None\<close>.\<close>

definition str_of_optional :: "string option \<Rightarrow> string" where
  "str_of_optional a = (case a of None \<Rightarrow> ''None'' | Some s \<Rightarrow> s)"

text \<open>\<^verbatim>\<open>elem.get("message") or elem.text or fallback\<close>.\<close>

definition element_msg :: "xml_element \<Rightarrow> string \<Rightarrow> string" where
  "element_msg e fallback =
     (case elem_message e of
        Some m \<Rightarrow> if m \<noteq> [] then m
                  else (case elem_text e of Some t \<Rightarrow> if t \<noteq> [] then t else fallback
                        | None \<Rightarrow> fallback)
      | None \<Rightarrow> (case elem_text e of Some t \<Rightarrow> if t \<noteq> [] then t else fallback
                 | None \<Rightarrow> fallback))"

definition testcase_failures :: "xml_testcase \<Rightarrow> string list" where
  "testcase_failures tc =
     (case failure_elem tc of
        Some e \<Rightarrow> [str_of_optional (classname tc) @ ''.'' @ str_of_optional (case_name tc)
                     @ '': '' @ element_msg e ''Assertion Failed'']
      | None \<Rightarrow>
          (case error_elem tc of
             Some e \<Rightarrow> [str_of_optional (classname tc) @ ''.'' @ str_of_optional (case_name tc)
                          @ '': '' @ element_msg e ''Error'']
           | None \<Rightarrow> []))"

definition endswith :: "string \<Rightarrow> string \<Rightarrow> bool" where
  "endswith s suf = prefix (rev suf) (rev s)"

text \<open>
  One pass of the loop over the directory. An exception inside the \<^verbatim>\<open>try\<close> leaves the
  updates made before it: the report text is already stored when an attribute is read,
  and \<open>total\<close> is already raised when \<open>failures\<close> is read.
\<close>

definition read_report ::
  "string test_summary \<times> string list \<Rightarrow> string \<times> xml_root option
     \<Rightarrow> string test_summary \<times> string list" where
  "read_report acc file =
     (let (summary, xml_reports) = acc; (fname, parsed) = file in
      if \<not> endswith fname ''.xml'' then acc
      else
        case parsed of
          None \<Rightarrow> acc
        | Some xroot \<Rightarrow>
            let xml_reports' = xml_reports @ [serialised xroot] in
            case attr_int (tests_attr xroot) of
              None \<Rightarrow> (summary, xml_reports')
            | Some t \<Rightarrow>
                let summary1 = summary\<lparr>total := total summary + t\<rparr> in
                case attr_int (failures_attr xroot) of
                  None \<Rightarrow> (summary1, xml_reports')
                | Some f \<Rightarrow>
                    case attr_int (errors_attr xroot) of
                      None \<Rightarrow> (summary1, xml_reports')
                    | Some e \<Rightarrow>
                        case attr_int (skipped_attr xroot) of
                          None \<Rightarrow> (summary1, xml_reports')
                        | Some s \<Rightarrow>
                            (summary1\<lparr>failed := failed summary1 + (f + e),
                                      skipped := skipped summary1 + s,
                                      failures := failures summary1
                                         @ concat (map testcase_failures (testcases xroot))\<rparr>,
                             xml_reports'))"

definition empty_summary :: "string test_summary" where
  "empty_summary = \<lparr>total = 0, passed = 0, failed = 0, skipped = 0, failures = []\<rparr>"

text \<open>
  The summary and the report texts after the loop; \<open>should_parse_xml\<close> is false when the
  XML library cannot be imported, \<open>surefire_dir\<close> is \<^verbatim>\<open>None\<close> when the directory is absent.
\<close>

definition read_surefire ::
  "bool \<Rightarrow> (string \<times> xml_root option) list option \<Rightarrow> string test_summary \<times> string list" where
  "read_surefire should_parse_xml surefire_dir =
     (let (summary, xml_reports) =
            (case surefire_dir of
               None \<Rightarrow> (empty_summary, [])
             | Some files \<Rightarrow>
                 if should_parse_xml then foldl read_report (empty_summary, []) files
                 else (empty_summary, []))
      in (summary\<lparr>passed := total summary - failed summary - skipped summary\<rparr>, xml_reports))"

text \<open>The success flag of \<^verbatim>\<open>execute_java_tests\<close>.\<close>

definition java_success :: "int \<Rightarrow> string test_summary \<Rightarrow> bool" where
  "java_success returncode test_summary =
     (returncode = 0 \<and> (if total test_summary > 0 then failed test_summary = 0 else True))"

section \<open>Parsing the output of the JavaScript runners\<close>

text \<open>\<^verbatim>\<open>s.find(p)\<close>, \<^verbatim>\<open>s.rfind(p)\<close> (\<^verbatim>\<open>None\<close> for \<^verbatim>\<open>-1\<close>) and the slice \<^verbatim>\<open>s[a:b]\<close>.\<close>

definition occurrences :: "string \<Rightarrow> string \<Rightarrow> nat list" where
  "occurrences p s = filter (\<lambda>i. prefix p (drop i s)) [0 ..< Suc (length s)]"

definition find :: "string \<Rightarrow> string \<Rightarrow> nat option" where
  "find p s = (case occurrences p s of [] \<Rightarrow> None | i # _ \<Rightarrow> Some i)"

definition rfind :: "string \<Rightarrow> string \<Rightarrow> nat option" where
  "rfind p s = (case rev (occurrences p s) of [] \<Rightarrow> None | i # _ \<Rightarrow> Some i)"

definition slice :: "nat \<Rightarrow> nat \<Rightarrow> string \<Rightarrow> string" where
  "slice a b s = take (b - a) (drop a s)"

subsection \<open>Verbose text\<close>

text \<open>
  The glyph classes of the line patterns. Of \<^verbatim>\<open>[\<close>check marks and square root\<^verbatim>\<open>]\<close>
  (U+2713, U+2714, U+221A) no code point lies in the range 0..255 of the model; of the
  failure classes (U+2715, U+2717, U+2718, U+25CF and the multiplication sign U+00D7)
  only the multiplication sign does.
\<close>

definition passed_glyphs :: "nat list" where
  "passed_glyphs = filter (\<lambda>n. n < 256) [0x2713, 0x2714, 0x221A]"

definition jasmine_failed_glyphs :: "nat list" where
  "jasmine_failed_glyphs = filter (\<lambda>n. n < 256) [0x2717, 0x2718, 0xD7]"

definition jest_failed_glyphs :: "nat list" where
  "jest_failed_glyphs = filter (\<lambda>n. n < 256) [0x2715, 0xD7, 0x2717, 0x25CF]"

text \<open>
  \<^verbatim>\<open>re.match(r'[G]\s+(.+)', line)\<close>, group 1. A line of \<^verbatim>\<open>splitlines\<close> holds no
  \<^verbatim>\<open>\n\<close>, so \<^verbatim>\<open>.\<close> matches each of its characters. The blanks are taken greedily; when
  nothing follows them, the last of at least two blanks is given back to the group.
\<close>

definition glyph_rest :: "nat list \<Rightarrow> string \<Rightarrow> (string \<times> string) option" where
  "glyph_rest glyphs line =
     (case line of
        [] \<Rightarrow> None
      | g # rest \<Rightarrow>
          if (of_char g :: nat) \<notin> set glyphs then None
          else let ws = takeWhile is_space rest; r = dropWhile is_space rest in
               if ws = [] then None else Some (ws, r))"

definition match_greedy :: "nat list \<Rightarrow> string \<Rightarrow> string option" where
  "match_greedy glyphs line =
     (case glyph_rest glyphs line of
        None \<Rightarrow> None
      | Some (ws, r) \<Rightarrow>
          if r \<noteq> [] then Some r
          else if 2 \<le> length ws then Some [last ws]
          else None)"

text \<open>The tail \<^verbatim>\<open>\s+\(\d+\s*ms\)\<close> up to the end of the line.\<close>

definition ms_suffix :: "string \<Rightarrow> bool" where
  "ms_suffix t =
     (let a = dropWhile is_space t in
      a \<noteq> t \<and>
      (case a of
         [] \<Rightarrow> False
       | c # b \<Rightarrow> c = CHR ''('' \<and>
           (let d = dropWhile is_digit b in d \<noteq> b \<and> dropWhile is_space d = ''ms)'')))"

text \<open>
  \<^verbatim>\<open>re.match(r'[G]\s+(.+?)(?:\s+\(\d+\s*ms\))?$', line)\<close>, group 1: the shortest non-empty
  text after which the line ends or only the duration tail is left.
\<close>

fun lazy_group :: "string \<Rightarrow> string \<Rightarrow> string" where
  "lazy_group acc [] = acc"
| "lazy_group acc (c # cs) = (if ms_suffix (c # cs) then acc else lazy_group (acc @ [c]) cs)"

definition match_lazy :: "nat list \<Rightarrow> string \<Rightarrow> string option" where
  "match_lazy glyphs line =
     (case glyph_rest glyphs line of
        None \<Rightarrow> None
      | Some (ws, r) \<Rightarrow>
          (case r of
             c # cs \<Rightarrow> Some (lazy_group [c] cs)
           | [] \<Rightarrow> if 2 \<le> length ws then Some [last ws] else None))"

text \<open>
  \<^verbatim>\<open>re.search(r'\((\d+)\s*ms\)', line)\<close> and \<^verbatim>\<open>int\<close> of its group, \<^verbatim>\<open>0\<close> without a match.
\<close>

fun search_duration :: "string \<Rightarrow> py_exception + int" where
  "search_duration [] = Inr 0"
| "search_duration (c # cs) =
     (if c = CHR ''('' \<and> takeWhile is_digit cs \<noteq> []
         \<and> prefix ''ms)'' (dropWhile is_space (dropWhile is_digit cs))
      then int_of_digits (takeWhile is_digit cs)
      else search_duration cs)"

definition text_case :: "string \<Rightarrow> string \<Rightarrow> int \<Rightarrow> error_value \<Rightarrow> test_case" where
  "text_case n st dur err =
     \<lparr>name = JStr n, status = st, duration = dur, description = JStr n, error = err\<rparr>"

text \<open>One line: the duration is converted before the matches are looked at.\<close>

definition jest_text_line :: "string \<Rightarrow> py_exception + test_case list" where
  "jest_text_line line =
     (let stripped = strip line in
      and_then (search_duration stripped) (\<lambda>dur.
        Inr (case match_lazy passed_glyphs stripped of
               Some g \<Rightarrow> [text_case (strip g) ''passed'' dur (Value JNull)]
             | None \<Rightarrow>
                 (case match_lazy jest_failed_glyphs stripped of
                    Some g \<Rightarrow>
                      [text_case (strip g) ''failed'' dur (Value (JStr ''See output for details''))]
                  | None \<Rightarrow> []))))"

definition parse_jest_text :: "string \<Rightarrow> py_exception + test_case list" where
  "parse_jest_text raw =
     and_then (for_each jest_text_line (splitlines raw)) (\<lambda>per_line. Inr (concat per_line))"

definition indented :: "string \<Rightarrow> bool" where
  "indented l = (prefix ''  '' l \<or> prefix [CHR 0x09] l)"

function jasmine_lines :: "string list \<Rightarrow> test_case list" where
  "jasmine_lines [] = []"
| "jasmine_lines (l # ls) =
     (case match_greedy passed_glyphs (strip l) of
        Some g \<Rightarrow> text_case (strip g) ''passed'' 0 (Value JNull) # jasmine_lines ls
      | None \<Rightarrow>
          (case match_greedy jasmine_failed_glyphs (strip l) of
             Some g \<Rightarrow>
               text_case (strip g) ''failed'' 0
                 (Value (JStr (if takeWhile indented ls = [] then ''Test failed''
                               else join [CHR 0x0A] (map strip (takeWhile indented ls)))))
               # jasmine_lines (dropWhile indented ls)
           | None \<Rightarrow> jasmine_lines ls))"
  by pat_completeness auto
termination
  by (relation "measure length") (auto simp add: length_dropWhile_le less_Suc_eq_le)

definition parse_jasmine_text :: "string \<Rightarrow> test_case list" where
  "parse_jasmine_text raw = jasmine_lines (splitlines raw)"

subsection \<open>Locating and decoding the structured output\<close>

text \<open>
  \<^verbatim>\<open>json.loads\<close> and \<^verbatim>\<open>JSONDecoder.raw_decode\<close> belong to the interpreter's library; they are
  parameters \<open>loads\<close> and \<open>raw_decode\<close> of the model, \<^verbatim>\<open>None\<close> when the decoder raises.
  \<open>raw_decode\<close> is given the text from the start index on.
\<close>

definition parse_jest_json :: "(string \<Rightarrow> json option) \<Rightarrow> string \<Rightarrow> json option" where
  "parse_jest_json loads raw =
     (case (case find ''\"numFailedTestSuites\"'' raw of
              Some i \<Rightarrow> Some i
            | None \<Rightarrow> find ''\"testResults\"'' raw) of
        None \<Rightarrow> None
      | Some idx \<Rightarrow>
          (case rfind ''{'' (take idx raw) of
             None \<Rightarrow> None
           | Some brace_idx \<Rightarrow> loads (drop brace_idx raw)))"

definition parse_mocha_json ::
  "(string \<Rightarrow> json option) \<Rightarrow> (string \<Rightarrow> json option) \<Rightarrow> string \<Rightarrow> json option" where
  "parse_mocha_json loads raw_decode raw =
     (let delimited =
            (case (rfind ''===MOCHA_JSON_START==='' raw, rfind ''===MOCHA_JSON_END==='' raw) of
               (Some si, Some ei) \<Rightarrow>
                 if ei > si then
                   (let blob = strip (slice (si + length ''===MOCHA_JSON_START==='') ei raw) in
                    if blob \<noteq> [] \<and> blob \<noteq> ''{}'' then loads blob else None)
                 else None
             | _ \<Rightarrow> None)
      in case delimited of
           Some obj \<Rightarrow> Some obj
         | None \<Rightarrow>
             (case find ''\"stats\"'' raw of
                None \<Rightarrow> None
              | Some idx \<Rightarrow>
                  (case rfind ''{'' (take idx raw) of
                     None \<Rightarrow> None
                   | Some brace_idx \<Rightarrow> raw_decode (drop brace_idx raw))))"

subsection \<open>The three parse strategies of \<^verbatim>\<open>execute_javascript_tests\<close>\<close>

datatype js_framework = Jest | Mocha | Jasmine

text \<open>
  Jest: the delimited blob inside its own \<^verbatim>\<open>try\<close> (a failure leaves the list empty), then
  the blob found anywhere (a failure of the conversion is not caught here), then the
  verbose text.
\<close>

definition jest_tests :: "(string \<Rightarrow> json option) \<Rightarrow> string \<Rightarrow> py_exception + test_case list" where
  "jest_tests loads raw =
     (let first =
            (case (find ''===JEST_JSON_START==='' raw, find ''===JEST_JSON_END==='' raw) of
               (Some si, Some ei) \<Rightarrow>
                 (case loads (strip (slice (si + length ''===JEST_JSON_START==='') ei raw)) of
                    None \<Rightarrow> []
                  | Some jest_data \<Rightarrow>
                      (case jest_json_to_tests jest_data of Inl e \<Rightarrow> [] | Inr ts \<Rightarrow> ts))
             | _ \<Rightarrow> [])
      in and_then
           (if first \<noteq> [] then Inr first
            else (case parse_jest_json loads raw of
                    None \<Rightarrow> Inr []
                  | Some jest_data \<Rightarrow>
                      if truthy jest_data then jest_json_to_tests jest_data else Inr []))
           (\<lambda>second. if second \<noteq> [] then Inr second else parse_jest_text raw))"

text \<open>The entry the Mocha strategy makes up when nothing was found.\<close>

definition suite_failed_entry :: "string \<Rightarrow> test_case" where
  "suite_failed_entry raw =
     (let error_lines = filter (\<lambda>l. strip l \<noteq> [] \<and> \<not> prefix ''> '' l \<and> \<not> isin ''MOCHA_JSON'' l)
                          (splitlines raw);
          detail = strip (join [CHR 0x0A] (take 30 error_lines));
          error_detail = (if detail \<noteq> [] then detail else ''Test suite failed to run'')
      in \<lparr>name = JStr ''Test suite failed to run'', status = ''failed'', duration = 0,
          description = JStr ''The test suite could not be executed.'',
          error = Value (JStr (take 2000 error_detail))\<rparr>)"

definition mocha_tests ::
  "(string \<Rightarrow> json option) \<Rightarrow> (string \<Rightarrow> json option) \<Rightarrow> string
     \<Rightarrow> py_exception + test_case list" where
  "mocha_tests loads raw_decode raw =
     and_then
       (case parse_mocha_json loads raw_decode raw of
          None \<Rightarrow> Inr []
        | Some mocha_data \<Rightarrow>
            if truthy mocha_data then mocha_json_to_tests mocha_data else Inr [])
       (\<lambda>first.
          and_then (if first \<noteq> [] then Inr first else parse_jest_text raw) (\<lambda>second.
            Inr (if second \<noteq> [] then second
                 else if isin ''\"stats\"'' raw \<or> isin ''\"passes\"'' raw then []
                 else [suite_failed_entry raw])))"

definition jasmine_tests :: "string \<Rightarrow> py_exception + test_case list" where
  "jasmine_tests raw =
     (if parse_jasmine_text raw \<noteq> [] then Inr (parse_jasmine_text raw) else parse_jest_text raw)"

definition js_parsed_tests ::
  "js_framework \<Rightarrow> (string \<Rightarrow> json option) \<Rightarrow> (string \<Rightarrow> json option) \<Rightarrow> string
     \<Rightarrow> py_exception + test_case list" where
  "js_parsed_tests fw loads raw_decode raw =
     (case fw of
        Jest \<Rightarrow> jest_tests loads raw
      | Mocha \<Rightarrow> mocha_tests loads raw_decode raw
      | Jasmine \<Rightarrow> jasmine_tests raw)"

section \<open>Parsing the output of pytest\<close>

text \<open>
  \<^verbatim>\<open>parse_pytest_output(output, docker_data)\<close> of \<^verbatim>\<open>backend/routes/tests_routes.py\<close>. The
  patterns are compiled with \<^verbatim>\<open>re.IGNORECASE\<close>: a letter of a pattern matches both of its
  cases.
\<close>

text \<open>\<^verbatim>\<open>s.split('\n')\<close>.\<close>

fun split_from :: "string \<Rightarrow> string \<Rightarrow> string list" where
  "split_from cur [] = [cur]"
| "split_from cur (c # cs) =
     (if c = CHR 0x0A then cur # split_from [] cs else split_from (cur @ [c]) cs)"

definition ci_prefix :: "string \<Rightarrow> string \<Rightarrow> bool" where
  "ci_prefix p s = prefix (lower p) (lower s)"

text \<open>
  \<^verbatim>\<open>(test_\w+)\s+(PASSED|FAILED|ERROR)\<close> at the start of \<open>s\<close>: groups 1 and 2. The greedy
  runs end at a character outside their class.
\<close>

definition test_status_here :: "string \<Rightarrow> (string \<times> string) option" where
  "test_status_here s =
     (if \<not> ci_prefix ''test_'' s then None
      else
        let w = takeWhile is_word (drop 5 s);
            ws = takeWhile is_space (dropWhile is_word (drop 5 s));
            r = dropWhile is_space (dropWhile is_word (drop 5 s)) in
        if w = [] \<or> ws = [] then None
        else
          (case filter (\<lambda>k. ci_prefix k r) [''PASSED'', ''FAILED'', ''ERROR''] of
             [] \<Rightarrow> None
           | k # _ \<Rightarrow> Some (take (5 + length w) s, take (length k) r)))"

text \<open>
  \<^verbatim>\<open>(?:test\.py|test_\w+\.py)::(?:\w+::)?\<close> followed by the pattern above, at the start of
  \<open>s\<close>. The optional class part is tried first.
\<close>

definition after_file_name :: "string \<Rightarrow> string option" where
  "after_file_name s =
     (if ci_prefix ''test.py'' s then Some (drop 7 s)
      else if ci_prefix ''test_'' s \<and> takeWhile is_word (drop 5 s) \<noteq> []
              \<and> ci_prefix ''.py'' (dropWhile is_word (drop 5 s))
      then Some (drop 3 (dropWhile is_word (drop 5 s)))
      else None)"

definition node_id_here :: "string \<Rightarrow> (string \<times> string) option" where
  "node_id_here s =
     (case after_file_name s of
        None \<Rightarrow> None
      | Some r \<Rightarrow>
          if \<not> prefix ''::'' r then None
          else
            let r1 = drop 2 r;
                with_class =
                  (if takeWhile is_word r1 \<noteq> [] \<and> prefix ''::'' (dropWhile is_word r1)
                   then test_status_here (drop 2 (dropWhile is_word r1)) else None)
            in case with_class of
                 Some g \<Rightarrow> Some g
               | None \<Rightarrow> test_status_here r1)"

text \<open>\<^verbatim>\<open>re.search\<close>: the first position at which the pattern matches.\<close>

fun search_first :: "(string \<Rightarrow> 'a option) \<Rightarrow> string \<Rightarrow> 'a option" where
  "search_first here [] = here []"
| "search_first here (c # cs) =
     (case here (c # cs) of Some g \<Rightarrow> Some g | None \<Rightarrow> search_first here cs)"

text \<open>\<^verbatim>\<open>s.replace(old, new)\<close> for a non-empty \<open>old\<close>.\<close>

definition replace :: "string \<Rightarrow> string \<Rightarrow> string \<Rightarrow> string" where
  "replace old new s =
     re_sub (\<lambda>prev t. if prefix old t then Some ((), length old) else None) (\<lambda>g matched. new) s"

text \<open>
  One line of the output: the first pattern, then the second. Group 2 is one of the three
  words in some mix of cases, so \<^verbatim>\<open>status.upper() == 'PASSED'\<close> is the comparison of its
  lower-cased form with \<^verbatim>\<open>passed\<close>.
\<close>

definition pytest_line :: "string \<Rightarrow> test_case list" where
  "pytest_line line =
     (case (case search_first node_id_here line of
              Some g \<Rightarrow> Some g
            | None \<Rightarrow> search_first test_status_here line) of
        None \<Rightarrow> []
      | Some (n, st) \<Rightarrow>
          [\<lparr>name = JStr n,
            status = (if lower st = ''passed'' then ''passed'' else ''failed''),
            duration = 0,
            description = JStr (replace ''_'' '' '' (replace ''test_'' [] n)),
            error = (if lower st = ''failed'' \<or> lower st = ''error''
                     then Value (JStr ''See output for details'') else Value JNull)\<rparr>])"

text \<open>
  \<^verbatim>\<open>(\d+)\s+passed(?:,\s*(\d+)\s+failed)?\<close> at the start of \<open>s\<close>: group 1, and group 2
  when the optional part matches.
\<close>

definition summary_here :: "string \<Rightarrow> (string \<times> string option) option" where
  "summary_here s =
     (let d = takeWhile is_digit s;
          ws = takeWhile is_space (dropWhile is_digit s);
          r = dropWhile is_space (dropWhile is_digit s) in
      if d = [] \<or> ws = [] \<or> \<not> ci_prefix ''passed'' r then None
      else
        (case drop 6 r of
           [] \<Rightarrow> Some (d, None)
         | c # cs \<Rightarrow>
             let f = takeWhile is_digit (dropWhile is_space cs);
                 r2 = dropWhile is_digit (dropWhile is_space cs) in
             if c = CHR '','' \<and> f \<noteq> [] \<and> takeWhile is_space r2 \<noteq> []
                \<and> ci_prefix ''failed'' (dropWhile is_space r2)
             then Some (d, Some f)
             else Some (d, None)))"

definition summary_case :: "string \<Rightarrow> error_value \<Rightarrow> nat \<Rightarrow> test_case" where
  "summary_case st err i =
     \<lparr>name = JStr (''test_case_'' @ show_nat (i + 1)), status = st, duration = 0,
      description = JStr (''Test case '' @ show_nat (i + 1)), error = err\<rparr>"

text \<open>
  The entries made from the summary line: \<^verbatim>\<open>int(group(1) or '0')\<close> passed ones, then
  \<^verbatim>\<open>int(group(2) or '0')\<close> failed ones.
\<close>

definition summary_tests :: "string \<Rightarrow> py_exception + test_case list" where
  "summary_tests out =
     (case search_first summary_here out of
        None \<Rightarrow> Inr []
      | Some (g1, g2) \<Rightarrow>
          and_then (int_of_digits g1) (\<lambda>passed_count.
          and_then (int_of_digits (case g2 of None \<Rightarrow> ''0'' | Some g \<Rightarrow> g)) (\<lambda>failed_count.
            Inr (map (summary_case ''passed'' (Value JNull)) [0 ..< nat passed_count]
                 @ map (\<lambda>i. summary_case ''failed'' (Value (JStr ''See output for details''))
                              (nat passed_count + i)) [0 ..< nat failed_count]))))"

definition execution_case :: "int \<Rightarrow> test_case" where
  "execution_case code =
     \<lparr>name = JStr ''test_execution'', status = (if code = 0 then ''passed'' else ''failed''),
      duration = 0, description = JStr ''Test execution'',
      error = (if code = 0 then Value JNull else Value (JStr ''Check raw output''))\<rparr>"

definition parse_pytest_output :: "string \<Rightarrow> int \<Rightarrow> py_exception + test_case list" where
  "parse_pytest_output out code =
     (let by_line = concat (map pytest_line (split_from [] out)) in
      and_then (if by_line \<noteq> [] then Inr by_line else summary_tests out) (\<lambda>by_summary.
        Inr (if by_summary \<noteq> [] then by_summary else [execution_case code])))"

section \<open>The three pipelines and the orchestrator\<close>

text \<open>
  What \<^verbatim>\<open>subprocess.run(docker_cmd, ..., timeout=timeout)\<close> does: it returns the exit code
  with the captured output, raises \<^verbatim>\<open>TimeoutExpired\<close>, or raises another exception, given
  by its text.
\<close>

datatype run_outcome =
  Completed int string string
| TimeoutExpired
| RunRaised string

text \<open>
  The commands handed to \<^verbatim>\<open>subprocess.run\<close>, by the container name they carry; the other
  arguments of \<^verbatim>\<open>docker run\<close> are left out.
\<close>

datatype command = DockerRun string | DockerKill string

text \<open>
  What \<^verbatim>\<open>subprocess.run(["docker", "kill", container_name], capture_output=True, check=False)\<close>
  does in the handler of \<^verbatim>\<open>TimeoutExpired\<close>: it returns (whatever the exit code of the
  command), it raises (the command cannot be started), or, having no timeout of its own,
  it never returns.
\<close>

datatype kill_outcome = KillReturned | KillRaised string | KillBlocked

text \<open>
  How a call ends: it returns a value, an exception leaves it (given by its text), or it
  never ends.
\<close>

datatype 'a call = is_returned: Returned (returned: 'a) | Raised string | Blocked

text \<open>The text of \<open>errors\<close>: a text, or \<^verbatim>\<open>str(e)\<close> of an exception raised while parsing.\<close>

datatype message = Text string | ExceptionText py_exception

datatype structured =
  JavaSummary "string test_summary"
| JsResults "(json \<times> error_value) js_test_results"

text \<open>The dictionary an executor returns (\<open>raw_output\<close> is its key \<^verbatim>\<open>output\<close>); a key that is not
  set is \<^verbatim>\<open>None\<close>.\<close>

record execution_result =
  success :: bool
  exit_code :: int
  raw_output :: string
  errors :: message
  xml_reports :: "string list option"
  test_results_json :: "structured option"
  container_name :: "string option"

text \<open>
  Everything outside the program that one execution meets: the directories that exist
  before the call, the path of the job directory (\<^verbatim>\<open>os.path.join(SHARED_WORK_DIR, job_id)\<close>
  with a named volume, otherwise what \<^verbatim>\<open>tempfile.mkdtemp\<close> returns), whether creating it
  raises, whether a stage before the container raises (writing files), what the
  container run does, what \<^verbatim>\<open>docker kill\<close> does, what is found afterwards, whether
  \<^verbatim>\<open>shutil.rmtree\<close> raises. The JavaScript framework is the one the code detects before
  the run.
\<close>

record environment =
  uuid_hex :: string
  existing :: "string set"
  use_named_volume :: bool
  job_path :: string
  mkdir_error :: "string option"
  prepare_error :: "string option"
  run :: run_outcome
  kill :: kill_outcome
  should_parse_xml :: bool
  surefire_dir :: "(string \<times> xml_root option) list option"
  framework :: js_framework
  json_loads :: "string \<Rightarrow> json option"
  json_raw_decode :: "string \<Rightarrow> json option"
  rmtree_error :: "string option"

definition timeout_result :: "int \<Rightarrow> execution_result" where
  "timeout_result timeout =
     \<lparr>success = False, exit_code = -1, raw_output = [],
      errors = Text (''Execution timed out after '' @ show_int timeout @ ''s''),
      xml_reports = None, test_results_json = None, container_name = None\<rparr>"

definition exception_result :: "message \<Rightarrow> execution_result" where
  "exception_result e =
     \<lparr>success = False, exit_code = -1, raw_output = [], errors = e,
      xml_reports = None, test_results_json = None, container_name = None\<rparr>"

text \<open>
  The \<^verbatim>\<open>try\<close> block shared by the three executors: stages before the run, the run, and
  the \<^verbatim>\<open>except\<close> clauses. \<open>on_completed\<close> is what the executor does with a finished run; an
  exception there reaches \<^verbatim>\<open>except Exception\<close>. The handler of \<^verbatim>\<open>TimeoutExpired\<close> calls
  \<^verbatim>\<open>docker kill\<close> unguarded: an exception raised there is not caught by the clauses
  of the same \<^verbatim>\<open>try\<close> and leaves the executor.
\<close>

definition run_container ::
  "environment \<Rightarrow> int \<Rightarrow> string
     \<Rightarrow> (int \<Rightarrow> string \<Rightarrow> string \<Rightarrow> py_exception + execution_result)
     \<Rightarrow> execution_result call \<times> command list" where
  "run_container env timeout cname on_completed =
     (case prepare_error env of
        Some e \<Rightarrow> (Returned (exception_result (Text e)), [])
      | None \<Rightarrow>
          (case run env of
             Completed returncode out err \<Rightarrow>
               (case on_completed returncode out err of
                  Inr r \<Rightarrow> (Returned r, [DockerRun cname])
                | Inl e \<Rightarrow> (Returned (exception_result (ExceptionText e)), [DockerRun cname]))
           | TimeoutExpired \<Rightarrow>
               (case kill env of
                  KillReturned \<Rightarrow> Returned (timeout_result timeout)
                | KillRaised e \<Rightarrow> Raised e
                | KillBlocked \<Rightarrow> Blocked,
                [DockerRun cname, DockerKill cname])
           | RunRaised e \<Rightarrow> (Returned (exception_result (Text e)), [DockerRun cname])))"

definition java_completed ::
  "environment \<Rightarrow> int \<Rightarrow> string \<Rightarrow> string \<Rightarrow> py_exception + execution_result" where
  "java_completed env returncode out err =
     (let (test_summary, reports) = read_surefire (should_parse_xml env) (surefire_dir env) in
      Inr \<lparr>success = java_success returncode test_summary,
           exit_code = returncode, raw_output = out, errors = Text err,
           xml_reports = Some reports,
           test_results_json = Some (JavaSummary test_summary),
           container_name = None\<rparr>)"

definition execute_java_tests ::
  "environment \<Rightarrow> int \<Rightarrow> string \<Rightarrow> execution_result call \<times> command list" where
  "execute_java_tests env timeout cname = run_container env timeout cname (java_completed env)"

definition js_completed ::
  "environment \<Rightarrow> int \<Rightarrow> string \<Rightarrow> string \<Rightarrow> py_exception + execution_result" where
  "js_completed env returncode out err =
     and_then
       (js_parsed_tests (framework env) (json_loads env) (json_raw_decode env)
          (out @ [CHR 0x0A] @ err))
       (\<lambda>parsed_tests.
          let results = build_js_test_results parsed_tests in
          Inr \<lparr>success = js_success returncode results,
               exit_code = returncode, raw_output = out, errors = Text err,
               xml_reports = Some [],
               test_results_json = Some (JsResults results),
               container_name = None\<rparr>)"

definition execute_javascript_tests ::
  "environment \<Rightarrow> int \<Rightarrow> string \<Rightarrow> execution_result call \<times> command list" where
  "execute_javascript_tests env timeout cname = run_container env timeout cname (js_completed env)"

definition python_completed :: "string \<Rightarrow> int \<Rightarrow> string \<Rightarrow> string \<Rightarrow> py_exception + execution_result" where
  "python_completed cname returncode out err =
     Inr \<lparr>success = (returncode = 0), exit_code = returncode, raw_output = out, errors = Text err,
          xml_reports = None, test_results_json = None, container_name = Some cname\<rparr>"

text \<open>
  The job directory. With a named volume \<^verbatim>\<open>temp_dir\<close> is assigned before
  \<^verbatim>\<open>os.makedirs(temp_dir, exist_ok=True)\<close> runs; without, it is assigned what
  \<^verbatim>\<open>tempfile.mkdtemp\<close> returns and stays \<^verbatim>\<open>None\<close> when that raises. The result: the exception
  raised, if any, the variable \<^verbatim>\<open>temp_dir\<close>, and the directories that exist afterwards.
  Directories made below the job directory are not tracked.
\<close>

definition create_job_dir ::
  "environment \<Rightarrow> string option \<times> string option \<times> string set" where
  "create_job_dir env =
     (case mkdir_error env of
        Some e \<Rightarrow>
          (Some e, if use_named_volume env then Some (job_path env) else None, existing env)
      | None \<Rightarrow> (None, Some (job_path env), insert (job_path env) (existing env)))"

text \<open>
  The \<^verbatim>\<open>finally\<close> block, on the directories and the error log:
  \<^verbatim>\<open>if temp_dir and os.path.exists(temp_dir)\<close>, then \<^verbatim>\<open>shutil.rmtree(temp_dir)\<close>, whose
  exception is logged and goes no further. A removal that raises leaves the directory
  itself in place, since it is removed last.
\<close>

definition cleanup ::
  "environment \<Rightarrow> string option \<Rightarrow> string set \<times> string list \<Rightarrow> string set \<times> string list" where
  "cleanup env temp_dir m =
     (case temp_dir of
        None \<Rightarrow> m
      | Some d \<Rightarrow>
          if d \<noteq> [] \<and> d \<in> fst m
          then (case rmtree_error env of
                  None \<Rightarrow> (fst m - {d}, snd m)
                | Some e \<Rightarrow> (fst m, snd m @ [''Failed to clean up temp dir: '' @ e]))
          else m)"

text \<open>
  An exception that leaves \<^verbatim>\<open>execute_java_tests\<close> or \<^verbatim>\<open>execute_javascript_tests\<close> is raised
  inside the \<^verbatim>\<open>try\<close> block of the orchestrator and reaches its \<^verbatim>\<open>except Exception\<close>.
\<close>

definition caught :: "execution_result call \<Rightarrow> execution_result call" where
  "caught c = (case c of Raised e \<Rightarrow> Returned (exception_result (Text e)) | _ \<Rightarrow> c)"

text \<open>
  The \<^verbatim>\<open>try\<close> block of the orchestrator once the job directory is made: the early returns
  of the Java and the JavaScript executors, then the Python path, whose container runs
  in this \<^verbatim>\<open>try\<close> block itself, so that an exception of \<^verbatim>\<open>docker kill\<close> leaves the
  orchestrator.
\<close>

definition route ::
  "environment \<Rightarrow> string \<Rightarrow> string \<Rightarrow> string option \<Rightarrow> int \<Rightarrow> string
     \<Rightarrow> execution_result call \<times> command list" where
  "route env test_code source_code language timeout cname =
     (let detected_language = detect_language source_code test_code language in
      if detected_language = ''java''
      then apfst caught (execute_java_tests env timeout cname)
      else if detected_language \<in> set [''javascript'', ''typescript'']
      then apfst caught (execute_javascript_tests env timeout cname)
      else run_container env timeout cname (python_completed cname))"

text \<open>
  \<^verbatim>\<open>execute_tests_in_docker\<close>: how the call ends, the commands issued, and the directories
  and the error log afterwards. The \<^verbatim>\<open>finally\<close> block runs when the call returns and when
  an exception leaves it; a call that never ends does not reach it.
\<close>

record outcome =
  result :: "execution_result call"
  commands :: "command list"
  directories :: "string set"
  error_log :: "string list"

definition execute_tests_in_docker ::
  "environment \<Rightarrow> string \<Rightarrow> string \<Rightarrow> string option \<Rightarrow> int \<Rightarrow> outcome" where
  "execute_tests_in_docker env test_code source_code language timeout =
     (let cname = ''genai-test-'' @ take 8 (uuid_hex env) in
      case create_job_dir env of
        (Some e, temp_dir, dirs) \<Rightarrow>
          let (dirs', logged) = cleanup env temp_dir (dirs, []) in
          \<lparr>result = Returned (exception_result (Text e)), commands = [],
           directories = dirs', error_log = logged\<rparr>
      | (None, temp_dir, dirs) \<Rightarrow>
          let (c, cmds) = route env test_code source_code language timeout cname
          in case c of
               Blocked \<Rightarrow>
                 \<lparr>result = Blocked, commands = cmds, directories = dirs, error_log = []\<rparr>
             | _ \<Rightarrow>
                 let (dirs', logged) = cleanup env temp_dir (dirs, []) in
                 \<lparr>result = c, commands = cmds, directories = dirs', error_log = logged\<rparr>)"

section \<open>The success flag, as specified and as computed\<close>

text \<open>
  The invariant the specification states for every result: \<open>success\<close> holds exactly when
  the exit code is zero and, if the structured result counts any test, it counts no
  failure.
\<close>

definition success_as_specified :: "execution_result \<Rightarrow> bool" where
  "success_as_specified r =
     (exit_code r = 0 \<and>
      (case test_results_json r of
         None \<Rightarrow> True
       | Some (JavaSummary s) \<Rightarrow> (if total s > 0 then failed s = 0 else True)
       | Some (JsResults ts) \<Rightarrow> (if total ts > 0 then failed ts = 0 else True)))"

text \<open>
  What the three pipelines compute: the Java path as specified; the JavaScript path by
  the structured list alone when it is not empty, by the exit code when it is; the
  Python path, and every path that ends in an \<^verbatim>\<open>except\<close> clause, by the exit code.
\<close>

definition success_as_computed :: "execution_result \<Rightarrow> bool" where
  "success_as_computed r =
     (case test_results_json r of
        None \<Rightarrow> exit_code r = 0
      | Some (JavaSummary s) \<Rightarrow> exit_code r = 0 \<and> (if total s > 0 then failed s = 0 else True)
      | Some (JsResults ts) \<Rightarrow>
          (if tests ts \<noteq> [] then list_all (\<lambda>t. status t = ''passed'') (tests ts)
           else exit_code r = 0))"

section \<open>Example executions\<close>

text \<open>Concrete surroundings of one execution, used where a result is evaluated.\<close>

definition java_no_reports_env :: environment where
  "java_no_reports_env =
     \<lparr>uuid_hex = ''0123456789abcdef0123456789abcdef'', existing = {},
      use_named_volume = False, job_path = ''/tmp/genai_exec_k3v9x2'', mkdir_error = None,
      prepare_error = None, run = Completed 0 ''BUILD SUCCESS'' ''warning: no tests'', kill = KillReturned,
      should_parse_xml = True, surefire_dir = None, framework = Jest,
      json_loads = map_of [], json_raw_decode = map_of [], rmtree_error = None\<rparr>"

definition jest_blob :: string where
  "jest_blob = ''{\"testResults\":[{\"testResults\":[{\"fullName\":\"adds\",\"status\":\"passed\"}]}]}''"

definition jest_data :: json where
  "jest_data = JObj [(''testResults'', JArr [JObj [(''testResults'',
       JArr [JObj [(''fullName'', JStr ''adds''), (''status'', JStr ''passed'')]])]])]"

definition jest_killed_env :: environment where
  "jest_killed_env =
     \<lparr>uuid_hex = ''0123456789abcdef0123456789abcdef'', existing = {},
      use_named_volume = False, job_path = ''/tmp/genai_exec_k3v9x2'', mkdir_error = None,
      prepare_error = None,
      run = Completed 137
              (''===JEST_JSON_START==='' @ CHR 0x0A # jest_blob @ CHR 0x0A # ''===JEST_JSON_END==='') [], kill = KillReturned,
      should_parse_xml = True, surefire_dir = None, framework = Jest,
      json_loads = map_of [(jest_blob, jest_data)], json_raw_decode = map_of [],
      rmtree_error = None\<rparr>"

definition mocha_blob :: string where
  "mocha_blob = ''{\"stats\":{\"pending\":1},\"passes\":[],\"failures\":[],\"pending\":[{\"title\":\"adds\",\"fullTitle\":\"calc adds\"}]}''"

definition mocha_pending_test :: json where
  "mocha_pending_test = JObj [(''title'', JStr ''adds''), (''fullTitle'', JStr ''calc adds'')]"

definition mocha_data :: json where
  "mocha_data = JObj [(''stats'', JObj [(''pending'', JInt 1)]), (''passes'', JArr []),
       (''failures'', JArr []), (''pending'', JArr [mocha_pending_test])]"

definition mocha_pending_env :: environment where
  "mocha_pending_env =
     \<lparr>uuid_hex = ''0123456789abcdef0123456789abcdef'', existing = {},
      use_named_volume = False, job_path = ''/tmp/genai_exec_k3v9x2'', mkdir_error = None,
      prepare_error = None,
      run = Completed 0
              (''===MOCHA_JSON_START==='' @ CHR 0x0A # mocha_blob @ CHR 0x0A # ''===MOCHA_JSON_END==='') [], kill = KillReturned,
      should_parse_xml = True, surefire_dir = None, framework = Mocha,
      json_loads = map_of [(mocha_blob, mocha_data)], json_raw_decode = map_of [],
      rmtree_error = None\<rparr>"

definition timeout_env :: environment where
  "timeout_env =
     \<lparr>uuid_hex = ''0123456789abcdef0123456789abcdef'', existing = {},
      use_named_volume = False, job_path = ''/tmp/genai_exec_k3v9x2'', mkdir_error = None,
      prepare_error = None, run = TimeoutExpired, kill = KillReturned,
      should_parse_xml = True, surefire_dir = None, framework = Jest,
      json_loads = map_of [], json_raw_decode = map_of [], rmtree_error = None\<rparr>"


definition kill_raises_env :: environment where
  "kill_raises_env =
     \<lparr>uuid_hex = ''0123456789abcdef0123456789abcdef'', existing = {},
      use_named_volume = False, job_path = ''/tmp/genai_exec_k3v9x2'', mkdir_error = None,
      prepare_error = None, run = TimeoutExpired,
      kill = KillRaised ''[Errno 12] Cannot allocate memory'',
      should_parse_xml = True, surefire_dir = None, framework = Jest,
      json_loads = map_of [], json_raw_decode = map_of [], rmtree_error = None\<rparr>"

text \<open>A Jasmine run with one pending spec and nothing else.\<close>

definition jasmine_pending_env :: environment where
  "jasmine_pending_env =
     \<lparr>uuid_hex = ''0123456789abcdef0123456789abcdef'', existing = {},
      use_named_volume = False, job_path = ''/tmp/genai_exec_k3v9x2'', mkdir_error = None,
      prepare_error = None,
      run = Completed 0 (''Started'' @ CHR 0x0A # ''*'' @ CHR 0x0A # ''1 spec, 0 failures, 1 pending spec'') [],
      kill = KillReturned,
      should_parse_xml = True, surefire_dir = None, framework = Jasmine,
      json_loads = map_of [], json_raw_decode = map_of [], rmtree_error = None\<rparr>"

text \<open>A Jest report with a skipped and a todo test.\<close>

definition jest_skipped_blob :: string where
  "jest_skipped_blob = ''{\"testResults\":[{\"testResults\":[{\"fullName\":\"adds\",\"status\":\"pending\"},{\"fullName\":\"later\",\"status\":\"todo\"}]}]}''"

definition jest_skipped_data :: json where
  "jest_skipped_data = JObj [(''testResults'', JArr [JObj [(''testResults'',
       JArr [JObj [(''fullName'', JStr ''adds''), (''status'', JStr ''pending'')],
             JObj [(''fullName'', JStr ''later''), (''status'', JStr ''todo'')]])]])]"

definition jest_skipped_env :: environment where
  "jest_skipped_env =
     \<lparr>uuid_hex = ''0123456789abcdef0123456789abcdef'', existing = {},
      use_named_volume = False, job_path = ''/tmp/genai_exec_k3v9x2'', mkdir_error = None,
      prepare_error = None,
      run = Completed 0
              (''===JEST_JSON_START==='' @ CHR 0x0A # jest_skipped_blob @ CHR 0x0A # ''===JEST_JSON_END==='') [],
      kill = KillReturned,
      should_parse_xml = True, surefire_dir = None, framework = Jest,
      json_loads = map_of [(jest_skipped_blob, jest_skipped_data)], json_raw_decode = map_of [],
      rmtree_error = None\<rparr>"

text \<open>A Mocha report that counts no test, from a run that exits with code 1.\<close>

definition mocha_empty_blob :: string where
  "mocha_empty_blob = ''{\"stats\":{\"tests\":0},\"passes\":[],\"failures\":[],\"pending\":[]}''"

definition mocha_empty_data :: json where
  "mocha_empty_data = JObj [(''stats'', JObj [(''tests'', JInt 0)]), (''passes'', JArr []),
       (''failures'', JArr []), (''pending'', JArr [])]"

definition mocha_empty_env :: environment where
  "mocha_empty_env =
     \<lparr>uuid_hex = ''0123456789abcdef0123456789abcdef'', existing = {},
      use_named_volume = False, job_path = ''/tmp/genai_exec_k3v9x2'', mkdir_error = None,
      prepare_error = None,
      run = Completed 1
              (''===MOCHA_JSON_START==='' @ CHR 0x0A # mocha_empty_blob @ CHR 0x0A # ''===MOCHA_JSON_END==='') [],
      kill = KillReturned,
      should_parse_xml = True, surefire_dir = None, framework = Mocha,
      json_loads = map_of [(mocha_empty_blob, mocha_empty_data)], json_raw_decode = map_of [],
      rmtree_error = None\<rparr>"

text \<open>A Mocha run that prints an error and no report.\<close>

definition mocha_crash_env :: environment where
  "mocha_crash_env =
     \<lparr>uuid_hex = ''0123456789abcdef0123456789abcdef'', existing = {},
      use_named_volume = False, job_path = ''/tmp/genai_exec_k3v9x2'', mkdir_error = None,
      prepare_error = None, run = Completed 1 ''Error: boom'' [], kill = KillReturned,
      should_parse_xml = True, surefire_dir = None, framework = Mocha,
      json_loads = map_of [], json_raw_decode = map_of [], rmtree_error = None\<rparr>"

section \<open>Facts on lines and stripping\<close>

lemma CR_linebreak: "is_linebreak (CHR 0x0D)" by code_simp
lemma LF_linebreak: "is_linebreak (CHR 0x0A)" by code_simp

lemma sf_CRLF: "splitlines_from cur (CHR 0x0D # CHR 0x0A # ds) = cur # splitlines_from [] ds"
  by simp

lemma sf_CR: "(\<forall>ds. cs \<noteq> CHR 0x0A # ds) \<Longrightarrow> splitlines_from cur (CHR 0x0D # cs) = cur # splitlines_from [] cs"
  by (cases cs) simp_all

lemma sf_break: "c \<noteq> CHR 0x0D \<Longrightarrow> is_linebreak c \<Longrightarrow> splitlines_from cur (c # cs) = cur # splitlines_from [] cs"
  by simp

lemma sf_char: "\<not> is_linebreak c \<Longrightarrow> splitlines_from cur (c # cs) = splitlines_from (cur @ [c]) cs"
  using CR_linebreak by (cases "c = CHR 0x0D") simp_all

lemma sf_step:
  "(\<not> is_linebreak c \<and> splitlines_from cur (c # cs) = splitlines_from (cur @ [c]) cs)
   \<or> (\<exists>r. length r \<le> length cs \<and> splitlines_from cur (c # cs) = cur # splitlines_from [] r)"
proof (cases "is_linebreak c")
  case False
  then have "splitlines_from cur (c # cs) = splitlines_from (cur @ [c]) cs" by (rule sf_char)
  with False show ?thesis by blast
next
  case True
  show ?thesis
  proof (cases "c = CHR 0x0D")
    case F: False
    have "splitlines_from cur (c # cs) = cur # splitlines_from [] cs"
      using F True by (rule sf_break)
    then show ?thesis by blast
  next
    case T: True
    show ?thesis
    proof (cases "\<exists>ds. cs = CHR 0x0A # ds")
      case True
      then obtain ds where ds: "cs = CHR 0x0A # ds" by blast
      have "splitlines_from cur (c # cs) = cur # splitlines_from [] ds"
        unfolding T ds by (rule sf_CRLF)
      moreover have "length ds \<le> length cs" unfolding ds by simp
      ultimately show ?thesis by blast
    next
      case False
      then have "\<forall>ds. cs \<noteq> CHR 0x0A # ds" by blast
      then have "splitlines_from cur (c # cs) = cur # splitlines_from [] cs"
        unfolding T by (rule sf_CR)
      then show ?thesis by blast
    qed
  qed
qed

declare splitlines_from.simps(2) [simp del]

lemma splitlines_from_no_break:
  "\<forall>c\<in>set cur. \<not> is_linebreak c \<Longrightarrow> l \<in> set (splitlines_from cur s) \<Longrightarrow> \<forall>c\<in>set l. \<not> is_linebreak c"
proof (induction "length s" arbitrary: cur s rule: less_induct)
  case less
  show ?case
  proof (cases s)
    case Nil
    with less.prems show ?thesis by (simp split: if_splits)
  next
    case (Cons c cs)
    from sf_step [of c cur cs] show ?thesis
    proof (elim disjE conjE exE)
      assume nb: "\<not> is_linebreak c"
        and eq: "splitlines_from cur (c # cs) = splitlines_from (cur @ [c]) cs"
      have a: "\<forall>x\<in>set (cur @ [c]). \<not> is_linebreak x" using less.prems(1) nb by simp
      have b: "l \<in> set (splitlines_from (cur @ [c]) cs)" using less.prems(2) Cons eq by simp
      have "length cs < length s" using Cons by simp
      from less.hyps [OF this a b] show ?thesis .
    next
      fix r
      assume len: "length r \<le> length cs"
        and eq: "splitlines_from cur (c # cs) = cur # splitlines_from [] r"
      from less.prems(2) Cons eq have "l = cur \<or> l \<in> set (splitlines_from [] r)" by simp
      then show ?thesis
      proof
        assume "l = cur"
        with less.prems(1) show ?thesis by simp
      next
        assume b: "l \<in> set (splitlines_from [] r)"
        have a: "\<forall>x\<in>set []. \<not> is_linebreak x" by simp
        have "length r < length s" using Cons len by simp
        from less.hyps [OF this a b] show ?thesis .
      qed
    qed
  qed
qed

lemma splitlines_from_append:
  "\<forall>c\<in>set l. \<not> is_linebreak c \<Longrightarrow> splitlines_from cur (l @ rest) = splitlines_from (cur @ l) rest"
proof (induction l arbitrary: cur)
  case Nil
  then show ?case by simp
next
  case (Cons a l)
  then show ?case by (simp add: sf_char)
qed

lemma splitlines_from_LF:
  "splitlines_from cur (CHR 0x0A # s) = cur # splitlines_from [] s"
  using LF_linebreak by (simp add: sf_break)

lemma splitlines_join:
  "\<forall>l\<in>set L. l \<noteq> [] \<and> (\<forall>c\<in>set l. \<not> is_linebreak c) \<Longrightarrow> splitlines (join [CHR 0x0A] L) = L"
proof (induction L rule: induct_list012)
  case 1
  then show ?case by (simp add: splitlines_def)
next
  case (2 x)
  then show ?case
    using splitlines_from_append [of x "[]" "[]"] by (simp add: splitlines_def)
next
  case (3 x y ys)
  have "splitlines_from [] (x @ CHR 0x0A # join [CHR 0x0A] (y # ys))
        = splitlines_from ([] @ x) (CHR 0x0A # join [CHR 0x0A] (y # ys))"
    using 3(3) by (intro splitlines_from_append) simp
  also have "\<dots> = x # splitlines_from [] (join [CHR 0x0A] (y # ys))"
    by (simp add: splitlines_from_LF)
  also have "\<dots> = x # y # ys"
    using 3(2) 3(3) by (simp add: splitlines_def)
  finally show ?case by (simp add: splitlines_def)
qed

lemma strip_subset: "c \<in> set (strip s) \<Longrightarrow> c \<in> set s"
proof -
  assume "c \<in> set (strip s)"
  then have "c \<in> set (rstrip s)" unfolding strip_def lstrip_def by (rule set_dropWhileD)
  then have "c \<in> set (dropWhile is_space (rev s))" unfolding rstrip_def by simp
  then have "c \<in> set (rev s)" by (rule set_dropWhileD)
  then show ?thesis by simp
qed

lemma rstrip_Nil_iff: "rstrip s = [] \<longleftrightarrow> (\<forall>c\<in>set s. is_space c)"
  by (simp add: rstrip_def dropWhile_eq_Nil_conv)

lemma rstrip_all_space:
  assumes "\<forall>c\<in>set (rstrip s). is_space c"
  shows "rstrip s = []"
proof (rule ccontr)
  assume ne: "rstrip s \<noteq> []"
  then have d: "dropWhile is_space (rev s) \<noteq> []" by (simp add: rstrip_def)
  then have "\<not> is_space (hd (dropWhile is_space (rev s)))" by (rule hd_dropWhile)
  moreover have "hd (dropWhile is_space (rev s)) \<in> set (rstrip s)"
    using d by (simp add: rstrip_def)
  ultimately show False using assms by blast
qed

lemma strip_Nil_iff: "strip s = [] \<longleftrightarrow> (\<forall>c\<in>set s. is_space c)"
proof
  assume "strip s = []"
  then have "\<forall>c\<in>set (rstrip s). is_space c"
    by (simp add: strip_def lstrip_def dropWhile_eq_Nil_conv)
  then have "rstrip s = []" by (rule rstrip_all_space)
  then show "\<forall>c\<in>set s. is_space c" by (simp add: rstrip_Nil_iff)
next
  assume "\<forall>c\<in>set s. is_space c"
  then have "rstrip s = []" by (simp add: rstrip_Nil_iff)
  then show "strip s = []" by (simp add: strip_def lstrip_def)
qed

lemma strip_strip_nonempty:
  assumes "strip s \<noteq> []"
  shows "strip (strip s) \<noteq> []"
proof -
  have "dropWhile is_space (rstrip s) \<noteq> []" using assms by (simp add: strip_def lstrip_def)
  then have "\<not> is_space (hd (dropWhile is_space (rstrip s)))" by (rule hd_dropWhile)
  moreover have "hd (strip s) \<in> set (strip s)" using assms by simp
  ultimately have "\<exists>c\<in>set (strip s). \<not> is_space c"
    unfolding strip_def lstrip_def by blast
  then show ?thesis by (simp add: strip_Nil_iff)
qed

lemma splitlines_no_break: "l \<in> set (splitlines s) \<Longrightarrow> \<forall>c\<in>set l. \<not> is_linebreak c"
  unfolding splitlines_def using splitlines_from_no_break [of "[]" l s] by simp

lemma auto_loop_lines:
  "x \<in> set (auto_loop combined ls) \<Longrightarrow> x \<noteq> [] \<and> (\<exists>l\<in>set ls. x = strip l)"
proof (induction ls arbitrary: combined)
  case Nil
  then show ?case by simp
next
  case (Cons l ls)
  show ?case
  proof (cases "strip l \<noteq> [] \<and> lower (strip l) \<notin> set combined")
    case True
    with Cons.prems have "x = strip l \<or> x \<in> set (auto_loop (lower (strip l) # combined) ls)"
      by (simp add: Let_def)
    then show ?thesis
    proof
      assume "x = strip l" with True show ?thesis by simp
    next
      assume "x \<in> set (auto_loop (lower (strip l) # combined) ls)"
      from Cons.IH [OF this] show ?thesis by auto
    qed
  next
    case False
    with Cons.prems have "x \<in> set (auto_loop combined ls)"
      by (simp add: Let_def split: if_splits)
    from Cons.IH [OF this] show ?thesis by auto
  qed
qed

lemma auto_loop_all_known:
  "\<forall>l\<in>set ls. strip l \<noteq> [] \<longrightarrow> lower (strip l) \<in> set combined \<Longrightarrow> auto_loop combined ls = []"
  by (induction ls arbitrary: combined) (auto simp add: Let_def)

lemma merge_requirements_all_lines:
  "merge_requirements user_req auto_req =
     (if all_lines user_req auto_req = [] then None
      else Some (join [CHR 0x0A] (all_lines user_req auto_req)))"
  by (simp add: merge_requirements_def all_lines_def Let_def)

lemma all_lines_wellformed:
  assumes "l \<in> set (all_lines user_req auto_req)"
  shows "strip l \<noteq> [] \<and> l \<noteq> [] \<and> (\<forall>c\<in>set l. \<not> is_linebreak c)"
proof -
  define u where "u = (case user_req of None \<Rightarrow> [] | Some r \<Rightarrow> r)"
  from assms have "l \<in> set (filter (\<lambda>l. strip l \<noteq> []) (splitlines u))
      \<or> l \<in> set (auto_loop (user_keys u) (splitlines auto_req))"
    by (simp add: all_lines_def u_def Let_def)
  then show ?thesis
  proof
    assume "l \<in> set (filter (\<lambda>l. strip l \<noteq> []) (splitlines u))"
    then have a: "strip l \<noteq> []" and b: "l \<in> set (splitlines u)" by simp_all
    from a have "l \<noteq> []" by (auto simp: strip_def lstrip_def rstrip_def)
    with a splitlines_no_break [OF b] show ?thesis by simp
  next
    assume "l \<in> set (auto_loop (user_keys u) (splitlines auto_req))"
    from auto_loop_lines [OF this] obtain l' where
      ne: "l \<noteq> []" and l': "l' \<in> set (splitlines auto_req)" and eq: "l = strip l'" by blast
    have "strip l \<noteq> []" using ne eq strip_strip_nonempty by simp
    moreover have "\<forall>c\<in>set l. \<not> is_linebreak c"
      using splitlines_no_break [OF l'] strip_subset eq by blast
    ultimately show ?thesis using ne by simp
  qed
qed

section \<open>Facts on the pipelines\<close>

lemma and_then_Inr: "and_then r f = Inr y \<longleftrightarrow> (\<exists>x. r = Inr x \<and> f x = Inr y)"
  by (cases r) (simp_all add: and_then_def)

lemma for_each_Inr:
  "for_each f xs = Inr ys \<Longrightarrow> list_all2 (\<lambda>x y. f x = Inr y) xs ys"
proof (induction xs arbitrary: ys)
  case Nil
  then show ?case by simp
next
  case (Cons x xs)
  then show ?case by (auto split: sum.splits)
qed

lemma mocha_pending_case_failed:
  "mocha_pending_case t = Inr tc \<Longrightarrow>
     status tc = ''failed'' \<and> error tc = Value (JStr ''Test was pending/skipped'')"
  by (auto simp add: mocha_pending_case_def and_then_Inr)

lemma jest_case_status:
  assumes "jest_case t = Inr tc"
  shows "(status tc = ''passed'' \<longleftrightarrow> dict_get t ''status'' (JStr ''unknown'') = Inr (JStr ''passed''))
         \<and> (status tc \<noteq> ''passed'' \<longrightarrow> status tc = ''failed'')"
  using assms by (auto simp add: jest_case_def and_then_Inr split: if_splits)

lemma js_success_all_failed:
  assumes "ts \<noteq> []" and "\<forall>t\<in>set ts. status t = ''failed''"
  shows "\<not> js_success rc (build_js_test_results ts)"
proof -
  have "filter (\<lambda>t. status t = ''passed'') ts = []" using assms(2) by (auto simp add: filter_empty_conv)
  moreover have "length ts > 0" using assms(1) by simp
  ultimately show ?thesis by (simp add: js_success_def build_js_test_results_def Let_def)
qed

lemma isin_middle: "isin p (a @ p @ b)"
proof (induction a)
  case Nil
  show ?case
  proof (cases "p @ b")
    case Nil
    then show ?thesis by simp
  next
    case (Cons c cs)
    have "prefix p (p @ b)" by simp
    with Cons show ?thesis by simp
  qed
next
  case (Cons x a)
  then show ?case by simp
qed

lemma run_container_timeout:
  assumes "prepare_error env = None" and "run env = TimeoutExpired"
  shows "run_container env timeout cname f =
           (case kill env of
              KillReturned \<Rightarrow> Returned (timeout_result timeout)
            | KillRaised e \<Rightarrow> Raised e
            | KillBlocked \<Rightarrow> Blocked,
            [DockerRun cname, DockerKill cname])"
  using assms by (simp add: run_container_def)

lemma read_surefire_absent: "read_surefire b None = (empty_summary, [])"
  by (simp add: read_surefire_def empty_summary_def)

lemma failed_zero_iff:
  "int (length ts) - int (length (filter P ts)) = 0 \<longleftrightarrow> list_all P ts"
proof -
  have "length (filter P ts) + length (filter (\<lambda>x. \<not> P x) ts) = length ts"
    by (rule sum_length_filter_compl)
  then have "(length (filter P ts) = length ts) = (filter (\<lambda>x. \<not> P x) ts = [])"
    by auto
  then show ?thesis by (auto simp add: filter_empty_conv list_all_iff)
qed

lemma computed_timeout: "success (timeout_result t) = success_as_computed (timeout_result t)"
  by (simp add: timeout_result_def success_as_computed_def)

lemma computed_exception: "success (exception_result e) = success_as_computed (exception_result e)"
  by (simp add: exception_result_def success_as_computed_def)

lemma computed_java:
  "java_completed env rc out err = Inr r \<Longrightarrow> success r = success_as_computed r"
  by (auto simp add: java_completed_def success_as_computed_def java_success_def Let_def
      split: prod.splits)

lemma computed_js:
  assumes "js_completed env rc out err = Inr r"
  shows "success r = success_as_computed r"
proof -
  from assms obtain ts where
    r: "r = \<lparr>success = js_success rc (build_js_test_results ts),
               exit_code = rc, raw_output = out, errors = Text err,
               xml_reports = Some [],
               test_results_json = Some (JsResults (build_js_test_results ts)),
               container_name = None\<rparr>"
    by (auto simp add: js_completed_def and_then_Inr Let_def)
  have t: "tests (build_js_test_results ts) = ts"
    by (simp add: build_js_test_results_def Let_def)
  have "js_success rc (build_js_test_results ts)
        = (if ts \<noteq> [] then list_all (\<lambda>t. status t = ''passed'') ts else rc = 0)"
    using failed_zero_iff [of ts "\<lambda>t. status t = ''passed''"]
    by (simp add: js_success_def build_js_test_results_def Let_def)
  then show ?thesis by (simp add: r success_as_computed_def t)
qed

lemma computed_python:
  "python_completed cname rc out err = Inr r \<Longrightarrow> success r = success_as_computed r"
  by (auto simp add: python_completed_def success_as_computed_def)

lemma computed_run_container:
  assumes f: "\<And>rc out err r. f rc out err = Inr r \<Longrightarrow> success r = success_as_computed r"
    and r: "fst (run_container env timeout cname f) = Returned r"
  shows "success r = success_as_computed r"
proof (cases "prepare_error env")
  case (Some e)
  with r show ?thesis by (auto simp add: run_container_def computed_exception)
next
  case None
  show ?thesis
  proof (cases "run env")
    case (Completed rc out err)
    show ?thesis
    proof (cases "f rc out err")
      case (Inl e)
      with None Completed r show ?thesis by (auto simp add: run_container_def computed_exception)
    next
      case (Inr x)
      with None Completed r f [OF Inr] show ?thesis by (auto simp add: run_container_def)
    qed
  next
    case TimeoutExpired
    with None r show ?thesis
      by (cases "kill env") (auto simp add: run_container_def computed_timeout)
  next
    case (RunRaised e)
    with None r show ?thesis by (auto simp add: run_container_def computed_exception)
  qed
qed

lemma computed_caught:
  assumes "caught c = Returned r"
    and "\<And>x. c = Returned x \<Longrightarrow> success x = success_as_computed x"
  shows "success r = success_as_computed r"
  using assms by (cases c) (auto simp add: caught_def computed_exception)



section \<open>Facts on substitution\<close>






section \<open>Facts on the JavaScript parsers\<close>

lemma for_each_all:
  assumes "for_each f xs = Inr ys" and "\<And>x y. f x = Inr y \<Longrightarrow> P y"
  shows "list_all P ys"
  using assms(1)
proof (induction xs arbitrary: ys)
  case Nil
  then show ?case by simp
next
  case (Cons x xs)
  then show ?case by (auto split: sum.splits dest: assms(2))
qed

lemma mocha_section_Inr:
  "mocha_section data key f = Inr ts \<longleftrightarrow>
     (\<exists>v items. dict_get data key (JArr []) = Inr v \<and> iterate v = Inr items
        \<and> for_each f items = Inr ts)"
  by (auto simp add: mocha_section_def and_then_Inr)

lemma mocha_section_items:
  assumes "mocha_section data key f = Inr ts" and "dict_get data key (JArr []) = Inr (JArr items)"
  shows "list_all2 (\<lambda>t tc. f t = Inr tc) items ts"
  using assms by (auto simp add: mocha_section_Inr intro: for_each_Inr)

lemma mocha_pass_case_passed: "mocha_pass_case t = Inr tc \<Longrightarrow> status tc = ''passed''"
  by (auto simp add: mocha_pass_case_def and_then_Inr)

lemma mocha_failure_case_failed: "mocha_failure_case t = Inr tc \<Longrightarrow> status tc = ''failed''"
  by (auto simp add: mocha_failure_case_def and_then_Inr)

lemma mocha_json_to_tests_Inr:
  "mocha_json_to_tests data = Inr ts \<longleftrightarrow>
     (\<exists>ps fs qs. mocha_section data ''passes'' mocha_pass_case = Inr ps
        \<and> mocha_section data ''failures'' mocha_failure_case = Inr fs
        \<and> mocha_section data ''pending'' mocha_pending_case = Inr qs
        \<and> ts = ps @ fs @ qs)"
  by (auto simp add: mocha_json_to_tests_def and_then_Inr)

lemma mocha_sections_statuses:
  assumes "mocha_json_to_tests data = Inr ts"
  shows "\<exists>ps fs qs. ts = ps @ fs @ qs
     \<and> mocha_section data ''passes'' mocha_pass_case = Inr ps
     \<and> mocha_section data ''failures'' mocha_failure_case = Inr fs
     \<and> mocha_section data ''pending'' mocha_pending_case = Inr qs
     \<and> list_all (\<lambda>t. status t = ''passed'') ps
     \<and> list_all (\<lambda>t. status t = ''failed'') fs
     \<and> list_all (\<lambda>t. status t = ''failed'' \<and> error t = Value (JStr ''Test was pending/skipped'')) qs"
proof -
  from assms obtain ps fs qs where
    p: "mocha_section data ''passes'' mocha_pass_case = Inr ps"
    and f: "mocha_section data ''failures'' mocha_failure_case = Inr fs"
    and q: "mocha_section data ''pending'' mocha_pending_case = Inr qs"
    and ts: "ts = ps @ fs @ qs"
    by (auto simp add: mocha_json_to_tests_Inr)
  from p have "list_all (\<lambda>t. status t = ''passed'') ps"
    by (auto simp add: mocha_section_Inr intro: for_each_all mocha_pass_case_passed)
  moreover from f have "list_all (\<lambda>t. status t = ''failed'') fs"
    by (auto simp add: mocha_section_Inr intro: for_each_all mocha_failure_case_failed)
  moreover have
    "list_all (\<lambda>t. status t = ''failed'' \<and> error t = Value (JStr ''Test was pending/skipped'')) qs"
  proof -
    from q obtain items where "for_each mocha_pending_case items = Inr qs"
      by (auto simp add: mocha_section_Inr)
    then show ?thesis
      by (rule for_each_all) (use mocha_pending_case_failed in blast)
  qed
  ultimately show ?thesis using p f q ts by blast
qed

lemma mocha_truthy:
  assumes "mocha_json_to_tests data = Inr ts" and "ts \<noteq> []"
  shows "truthy data"
proof (cases data)
  case (JObj kvs)
  show ?thesis
  proof (cases kvs)
    case Nil
    with JObj have "mocha_json_to_tests data = Inr []"
      by (simp add: mocha_json_to_tests_def mocha_section_def and_then_def)
    with assms show ?thesis by simp
  next
    case (Cons kv rest)
    with JObj show ?thesis by simp
  qed
qed (use assms in \<open>simp_all add: mocha_json_to_tests_def mocha_section_def and_then_def\<close>)

lemma mocha_tests_json:
  assumes "parse_mocha_json loads raw_decode raw = Some data"
    and "mocha_json_to_tests data = Inr ts" and "ts \<noteq> []"
  shows "mocha_tests loads raw_decode raw = Inr ts"
  using assms mocha_truthy [OF assms(2,3)] by (simp add: mocha_tests_def and_then_def)

lemma jest_suite_items:
  assumes "jest_suite suite = Inr ts"
    and "dict_get suite ''testResults'' (JArr []) = Inr (JArr items)"
  shows "list_all2 (\<lambda>t tc. jest_case t = Inr tc) items ts"
  using assms by (auto simp add: jest_suite_def and_then_Inr intro: for_each_Inr)

lemma jest_json_suites:
  assumes "jest_json_to_tests data = Inr ts"
    and "dict_get data ''testResults'' (JArr []) = Inr (JArr suites)"
  shows "\<exists>per_suite. list_all2 (\<lambda>s l. jest_suite s = Inr l) suites per_suite \<and> ts = concat per_suite"
  using assms by (auto simp add: jest_json_to_tests_def and_then_Inr intro: for_each_Inr)

lemma jest_tests_delimited:
  assumes "find ''===JEST_JSON_START==='' raw = Some si"
    and "find ''===JEST_JSON_END==='' raw = Some ei"
    and "loads (strip (slice (si + length ''===JEST_JSON_START==='') ei raw)) = Some data"
    and "jest_json_to_tests data = Inr ts" and "ts \<noteq> []"
  shows "jest_tests loads raw = Inr ts"
  using assms by (simp add: jest_tests_def and_then_def)

lemma js_success_tests:
  "js_success rc (build_js_test_results ts)
     = (if ts \<noteq> [] then list_all (\<lambda>t. status t = ''passed'') ts else rc = 0)"
  using failed_zero_iff [of ts "\<lambda>t. status t = ''passed''"]
  by (simp add: js_success_def build_js_test_results_def Let_def)

lemma js_completed_tests:
  assumes "js_parsed_tests (framework env) (json_loads env) (json_raw_decode env)
             (out @ [CHR 0x0A] @ err) = Inr ts"
  shows "js_completed env rc out err =
     Inr \<lparr>success = (if ts \<noteq> [] then list_all (\<lambda>t. status t = ''passed'') ts else rc = 0),
          exit_code = rc, raw_output = out, errors = Text err, xml_reports = Some [],
          test_results_json = Some (JsResults (build_js_test_results ts)),
          container_name = None\<rparr>"
  using assms by (simp add: js_completed_def and_then_def js_success_tests)

lemma js_completed_raises:
  assumes "js_parsed_tests (framework env) (json_loads env) (json_raw_decode env)
             (out @ [CHR 0x0A] @ err) = Inl e"
  shows "js_completed env rc out err = Inl e"
  using assms by (simp add: js_completed_def and_then_def)

lemma execute_js_returned:
  assumes "mkdir_error env = None" and "prepare_error env = None"
    and "run env = Completed rc out err"
    and "detect_language source_code test_code language \<in> set [''javascript'', ''typescript'']"
  shows "result (execute_tests_in_docker env test_code source_code language timeout) =
           Returned (case js_completed env rc out err of
                       Inr r \<Rightarrow> r
                     | Inl e \<Rightarrow> exception_result (ExceptionText e))"
proof -
  from assms(4) have "detect_language source_code test_code language \<noteq> ''java''"
    by auto
  with assms show ?thesis
    by (simp add: execute_tests_in_docker_def route_def create_job_dir_def
          execute_javascript_tests_def run_container_def caught_def Let_def case_prod_beta
          split: sum.splits)
qed

lemma mocha_tests_without_markers:
  assumes "\<not> isin ''\"stats\"'' raw" and "\<not> isin ''\"passes\"'' raw"
    and "mocha_tests loads raw_decode raw = Inr ts"
  shows "ts \<noteq> []"
  using assms by (auto simp add: mocha_tests_def and_then_Inr Let_def split: if_splits)

lemma mocha_tests_synthesised:
  assumes "\<not> isin ''\"stats\"'' raw" and "\<not> isin ''\"passes\"'' raw"
    and "parse_mocha_json loads raw_decode raw = None" and "parse_jest_text raw = Inr []"
  shows "mocha_tests loads raw_decode raw = Inr [suite_failed_entry raw]"
  using assms by (simp add: mocha_tests_def and_then_def)

lemma suite_failed_entry_failed: "status (suite_failed_entry raw) = ''failed''"
  by (simp add: suite_failed_entry_def Let_def)

section \<open>Results on language detection\<close>

text \<open>
  C9, as stated: a non-empty declared language outside the recognized set comes back
  unchanged when no TypeScript marker is present. The declared language is lower-cased
  and stripped before it is returned, so \<^verbatim>\<open>"Ruby"\<close> comes back as \<^verbatim>\<open>"ruby"\<close>.
\<close>

theorem C9_unchanged_counterexample:
  "\<not> (''Ruby'' \<noteq> [] \<and> ''Ruby'' \<notin> set recognized_languages \<and> \<not> has_ts_marker [] []
      \<longrightarrow> detect_language [] [] (Some ''Ruby'') = ''Ruby'')"
  by code_simp

text \<open>
  C9, amended: when the lower-cased, stripped form of the declared language is non-empty
  and outside the recognized set, and the combined source and test text has no
  TypeScript marker, detection returns that normal form; the result is not confined to
  the four supported languages.
\<close>

theorem C9_unrecognized_language_returned:
  assumes "strip (lower l) \<noteq> []"
    and "strip (lower l) \<notin> set recognized_languages"
    and "\<not> has_ts_marker source_code test_code"
  shows "detect_language source_code test_code (Some l) = strip (lower l)"
  using assms
  by (simp add: detect_language_def recognized_languages_def has_ts_marker_def Let_def)

theorem C9_unrecognized_language_returned_witness:
  "strip (lower ''ruby'') \<noteq> [] \<and> strip (lower ''ruby'') \<notin> set recognized_languages
   \<and> \<not> has_ts_marker ''def add(a, b)'' ''assert add(2, 3) == 5''
   \<and> detect_language ''def add(a, b)'' ''assert add(2, 3) == 5'' (Some ''ruby'') = ''ruby''
   \<and> ''ruby'' \<notin> set [''python'', ''javascript'', ''typescript'', ''java'']"
proof -
  have a: "strip (lower ''ruby'') \<noteq> []" by code_simp
  have b: "strip (lower ''ruby'') \<notin> set recognized_languages" by code_simp
  have c: "\<not> has_ts_marker ''def add(a, b)'' ''assert add(2, 3) == 5''" by code_simp
  have d: "strip (lower ''ruby'') = ''ruby''" by code_simp
  show ?thesis
    using a b c C9_unrecognized_language_returned [OF a b c] by (simp add: d)
qed

section \<open>Results on requirements merging\<close>

text \<open>
  C7, as stated: merging an already-merged text with itself gives the same text. A
  comment line of the user part is kept in the output but is not entered into
  \<^verbatim>\<open>combined\<close>, so as the auto-detected part it is appended a second time.
\<close>

theorem C7_idempotence_counterexample:
  "merge_requirements (Some ''# pinned'') [] = Some ''# pinned''
   \<and> merge_requirements (Some ''# pinned'') ''# pinned'' \<noteq> Some ''# pinned''"
  by code_simp

text \<open>
  C7, amended: for every text \<open>m\<close> produced by a merge in which no line, once stripped,
  starts with \<^verbatim>\<open>#\<close>, merging \<open>m\<close> with itself (as the user-declared and as the
  auto-detected part) yields \<open>m\<close> again; entries are compared lower-cased.
\<close>

theorem C7_merge_idempotent_without_comments:
  assumes m: "merge_requirements user_req auto_req = Some m"
    and nc: "\<forall>l\<in>set (splitlines m). \<not> prefix ''#'' (strip l)"
  shows "merge_requirements (Some m) m = Some m"
proof -
  define L where "L = all_lines user_req auto_req"
  from m have Lne: "L \<noteq> []" and mL: "m = join [CHR 0x0A] L"
    by (simp_all add: merge_requirements_all_lines L_def split: if_splits)
  have wf: "\<forall>l\<in>set L. strip l \<noteq> [] \<and> l \<noteq> [] \<and> (\<forall>c\<in>set l. \<not> is_linebreak c)"
    using all_lines_wellformed unfolding L_def by blast
  then have sp: "splitlines m = L" unfolding mL by (intro splitlines_join) simp
  have keep: "filter (\<lambda>l. strip l \<noteq> []) L = L" using wf by simp
  have keys: "user_keys m = map lower (map strip L)"
  proof -
    have "filter (\<lambda>line. line \<noteq> [] \<and> \<not> prefix ''#'' line) (map strip L) = map strip L"
      using wf nc unfolding sp by (simp add: filter_id_conv)
    then show ?thesis by (simp add: user_keys_def sp)
  qed
  have "auto_loop (user_keys m) L = []"
    by (rule auto_loop_all_known) (simp add: keys)
  then have "all_lines (Some m) m = L"
    by (simp add: all_lines_def sp keep)
  then show ?thesis using Lne mL by (simp add: merge_requirements_all_lines)
qed

theorem C7_merge_idempotent_without_comments_witness:
  "merge_requirements (Some (''Flask'' @ CHR 0x0A # ''  requests '')) (''flask'' @ CHR 0x0A # ''PyYAML'')
     = Some (''Flask'' @ CHR 0x0A # ''  requests '' @ CHR 0x0A # ''PyYAML'')
   \<and> merge_requirements (Some (''Flask'' @ CHR 0x0A # ''  requests '' @ CHR 0x0A # ''PyYAML''))
        (''Flask'' @ CHR 0x0A # ''  requests '' @ CHR 0x0A # ''PyYAML'')
     = Some (''Flask'' @ CHR 0x0A # ''  requests '' @ CHR 0x0A # ''PyYAML'')"
proof -
  have a: "merge_requirements (Some (''Flask'' @ CHR 0x0A # ''  requests '')) (''flask'' @ CHR 0x0A # ''PyYAML'')
     = Some (''Flask'' @ CHR 0x0A # ''  requests '' @ CHR 0x0A # ''PyYAML'')"
    by code_simp
  have b: "\<forall>l\<in>set (splitlines (''Flask'' @ CHR 0x0A # ''  requests '' @ CHR 0x0A # ''PyYAML'')).
         \<not> prefix ''#'' (strip l)"
    by code_simp
  from a b C7_merge_idempotent_without_comments [OF a b] show ?thesis by blast
qed

section \<open>Results on dependency inference\<close>

text \<open>
  C8, as stated: the package list keeps the order in which the imports were discovered.
  The names are read with \<^verbatim>\<open>sorted\<close>: for \<^verbatim>\<open>import yaml\<close> followed by \<^verbatim>\<open>import bs4\<close> the
  result lists \<^verbatim>\<open>beautifulsoup4\<close> before \<^verbatim>\<open>PyYAML\<close>.
\<close>

theorem C8_discovery_order_counterexample:
  "auto_detect_pip_requirements [] (Some [Import [''yaml''], Import [''bs4'']]) []
     = ''beautifulsoup4'' @ CHR 0x0A # ''PyYAML''
   \<and> auto_detect_packages [] [Import [''yaml''], Import [''bs4'']] []
     \<noteq> packages_in_discovery_order [] [Import [''yaml''], Import [''bs4'']] []"
  by code_simp

text \<open>
  C8, amended: dependency inference collects the first dotted component of every
  imported module name, removes standard-library names and caller-excluded local module
  names, maps each remaining name through the import-name-to-package-name table, and
  returns the packages in ascending order of the import names, each import name once,
  whatever the order in which the imports were discovered.
\<close>

theorem C8_packages_sorted_by_import_name:
  "auto_detect_packages sys_stdlib nodes exclude
     = map pip_name (selected_modules sys_stdlib nodes exclude)
   \<and> sorted (selected_modules sys_stdlib nodes exclude)
   \<and> distinct (selected_modules sys_stdlib nodes exclude)
   \<and> set (selected_modules sys_stdlib nodes exclude)
     = {m \<in> set (collect_imports nodes).
          m \<notin> set (STDLIB_MODULES sys_stdlib) \<and> m \<notin> set exclude}
   \<and> auto_detect_pip_requirements sys_stdlib (Some nodes) exclude
     = join [CHR 0x0A] (auto_detect_packages sys_stdlib nodes exclude)
   \<and> auto_detect_pip_requirements sys_stdlib None exclude = []"
  by (auto simp add: auto_detect_packages_def selected_modules_def
        auto_detect_pip_requirements_def sorted_wrt_filter)

theorem C8_packages_sorted_by_import_name_witness:
  "selected_modules [''os''] [ImportFrom (Some ''yaml.nodes'') 0 [''Node''], Import [''os.path'', ''bs4''],
      ImportFrom (Some ''helpers'') 0 [''f''], ImportFrom (Some ''pkg'') 1 [''g'']] [''helpers'']
     = [''bs4'', ''yaml'']
   \<and> auto_detect_packages [''os''] [ImportFrom (Some ''yaml.nodes'') 0 [''Node''], Import [''os.path'', ''bs4''],
      ImportFrom (Some ''helpers'') 0 [''f''], ImportFrom (Some ''pkg'') 1 [''g'']] [''helpers'']
     = [''beautifulsoup4'', ''PyYAML'']"
proof -
  have a: "selected_modules [''os''] [ImportFrom (Some ''yaml.nodes'') 0 [''Node''], Import [''os.path'', ''bs4''],
      ImportFrom (Some ''helpers'') 0 [''f''], ImportFrom (Some ''pkg'') 1 [''g'']] [''helpers'']
     = [''bs4'', ''yaml'']"
    by code_simp
  have b: "map pip_name [''bs4'', ''yaml''] = [''beautifulsoup4'', ''PyYAML'']"
    by code_simp
  from C8_packages_sorted_by_import_name [of "[''os'']" "[ImportFrom (Some ''yaml.nodes'') 0 [''Node''], Import [''os.path'', ''bs4''],
      ImportFrom (Some ''helpers'') 0 [''f''], ImportFrom (Some ''pkg'') 1 [''g'']]" "[''helpers'']"]
  have "auto_detect_packages [''os''] [ImportFrom (Some ''yaml.nodes'') 0 [''Node''], Import [''os.path'', ''bs4''],
      ImportFrom (Some ''helpers'') 0 [''f''], ImportFrom (Some ''pkg'') 1 [''g'']] [''helpers'']
     = map pip_name (selected_modules [''os''] [ImportFrom (Some ''yaml.nodes'') 0 [''Node''], Import [''os.path'', ''bs4''],
      ImportFrom (Some ''helpers'') 0 [''f''], ImportFrom (Some ''pkg'') 1 [''g'']] [''helpers''])"
    by blast
  with a b show ?thesis by simp
qed

section \<open>Results on import rewriting\<close>




section \<open>Results on the success flag\<close>

text \<open>
  C1, as stated: on all three pipelines \<open>success\<close> holds exactly when the exit code is
  zero and the structured result, if it counts any test, counts no failure. On the
  JavaScript path a non-empty structured list decides alone: a run whose container
  exits with code 137 after Jest has reported one passed test is a success.
\<close>

theorem C1_exit_code_counterexample:
  "is_returned (result (execute_tests_in_docker jest_killed_env [] [] (Some ''javascript'') 120))
   \<and> success (returned (result (execute_tests_in_docker jest_killed_env [] [] (Some ''javascript'') 120)))
   \<and> exit_code (returned (result (execute_tests_in_docker jest_killed_env [] [] (Some ''javascript'') 120)))
       = 137
   \<and> \<not> success_as_specified
         (returned (result (execute_tests_in_docker jest_killed_env [] [] (Some ''javascript'') 120)))"
  by code_simp

text \<open>
  C1, amended: for every execution request, the result returned has \<open>success\<close> equal to
  \<^const>\<open>success_as_computed\<close>: on the Java path the exit code is zero and the summary, if it
  counts any test, counts no failure; on the JavaScript/TypeScript path every entry of a
  non-empty structured list is passed, whatever the exit code, and the exit code is zero
  when the list is empty; on the Python path, which returns no structured result, and on
  every timeout or exception path the exit code is zero. An empty structured result with
  a zero exit code is a success on all three.
\<close>

theorem C1_success_as_computed:
  assumes r: "result (execute_tests_in_docker env test_code source_code language timeout) = Returned r"
  shows "success r = success_as_computed r"
proof (cases "mkdir_error env")
  case (Some e)
  with r show ?thesis
    by (auto simp add: execute_tests_in_docker_def route_def create_job_dir_def Let_def computed_exception
        split: prod.splits)
next
  case None
  have j: "success x = success_as_computed x"
    if "caught (fst (execute_java_tests env timeout cname)) = Returned x" for cname x
    using that unfolding execute_java_tests_def
    by (rule computed_caught) (rule computed_run_container, rule computed_java)
  have s: "success x = success_as_computed x"
    if "caught (fst (execute_javascript_tests env timeout cname)) = Returned x" for cname x
    using that unfolding execute_javascript_tests_def
    by (rule computed_caught) (rule computed_run_container, rule computed_js)
  have p: "success x = success_as_computed x"
    if "fst (run_container env timeout cname (python_completed cname)) = Returned x" for cname x
    using that by (rule computed_run_container [rotated]) (rule computed_python)
  from r None show ?thesis
    by (auto simp add: execute_tests_in_docker_def route_def create_job_dir_def Let_def case_prod_beta
        split: if_splits call.splits dest: j s p)
qed

theorem C1_success_as_computed_witness:
  "result (execute_tests_in_docker java_no_reports_env [] [] (Some ''java'') 120)
     = Returned \<lparr>success = True, exit_code = 0, raw_output = ''BUILD SUCCESS'',
         errors = Text ''warning: no tests'', xml_reports = Some [],
         test_results_json = Some (JavaSummary
            \<lparr>total = 0, passed = 0, failed = 0, skipped = 0, failures = []\<rparr>),
         container_name = None\<rparr>
   \<and> success_as_computed \<lparr>success = True, exit_code = 0, raw_output = ''BUILD SUCCESS'',
         errors = Text ''warning: no tests'', xml_reports = Some [],
         test_results_json = Some (JavaSummary
            \<lparr>total = 0, passed = 0, failed = 0, skipped = 0, failures = []\<rparr>),
         container_name = None\<rparr>"
proof -
  have a: "result (execute_tests_in_docker java_no_reports_env [] [] (Some ''java'') 120)
     = Returned \<lparr>success = True, exit_code = 0, raw_output = ''BUILD SUCCESS'',
         errors = Text ''warning: no tests'', xml_reports = Some [],
         test_results_json = Some (JavaSummary
            \<lparr>total = 0, passed = 0, failed = 0, skipped = 0, failures = []\<rparr>),
         container_name = None\<rparr>"
    by code_simp
  from a C1_success_as_computed [OF a] show ?thesis by simp
qed

section \<open>Results on the Java path without reports\<close>

text \<open>
  C2, as stated: with the Surefire directory absent the result holds exactly one made-up
  failing test case carrying stderr, and \<open>success\<close> is false whatever the exit code. The
  Java path makes up no test case, and with exit code 0 the run is a success.
\<close>

theorem C2_absent_reports_counterexample:
  "surefire_dir java_no_reports_env = None
   \<and> is_returned (result (execute_tests_in_docker java_no_reports_env [] [] (Some ''java'') 120))
   \<and> success (returned (result (execute_tests_in_docker java_no_reports_env [] [] (Some ''java'') 120)))
   \<and> test_results_json
        (returned (result (execute_tests_in_docker java_no_reports_env [] [] (Some ''java'') 120)))
      = Some (JavaSummary \<lparr>total = 0, passed = 0, failed = 0, skipped = 0, failures = []\<rparr>)"
  by code_simp

text \<open>
  C2, amended: on the Java path, whenever the Surefire report directory is absent after
  a completed container run, the result carries no test case: the summary counts 0
  tests with an empty list of failures, there is no XML report, stderr is returned as
  \<open>errors\<close>, and \<open>success\<close> holds exactly when the exit code is 0.
\<close>

theorem C2_absent_reports_empty_summary:
  assumes "mkdir_error env = None" and "prepare_error env = None"
    and "run env = Completed returncode out err"
    and "surefire_dir env = None"
    and "detect_language source_code test_code language = ''java''"
  shows "result (execute_tests_in_docker env test_code source_code language timeout)
         = Returned \<lparr>success = (returncode = 0), exit_code = returncode, raw_output = out,
            errors = Text err, xml_reports = Some [],
            test_results_json = Some (JavaSummary
               \<lparr>total = 0, passed = 0, failed = 0, skipped = 0, failures = []\<rparr>),
            container_name = None\<rparr>"
  using assms
  by (simp add: execute_tests_in_docker_def route_def create_job_dir_def execute_java_tests_def
        run_container_def caught_def java_completed_def read_surefire_absent java_success_def
        empty_summary_def case_prod_beta)

theorem C2_absent_reports_empty_summary_witness:
  "mkdir_error java_no_reports_env = None \<and> prepare_error java_no_reports_env = None
   \<and> run java_no_reports_env = Completed 0 ''BUILD SUCCESS'' ''warning: no tests''
   \<and> surefire_dir java_no_reports_env = None
   \<and> detect_language [] [] (Some ''java'') = ''java''
   \<and> result (execute_tests_in_docker java_no_reports_env [] [] (Some ''java'') 120)
         = Returned \<lparr>success = True, exit_code = 0, raw_output = ''BUILD SUCCESS'',
            errors = Text ''warning: no tests'', xml_reports = Some [],
            test_results_json = Some (JavaSummary
               \<lparr>total = 0, passed = 0, failed = 0, skipped = 0, failures = []\<rparr>),
            container_name = None\<rparr>"
proof -
  have a: "mkdir_error java_no_reports_env = None" by (simp add: java_no_reports_env_def)
  have b: "prepare_error java_no_reports_env = None" by (simp add: java_no_reports_env_def)
  have c: "run java_no_reports_env = Completed 0 ''BUILD SUCCESS'' ''warning: no tests''"
    by (simp add: java_no_reports_env_def)
  have d: "surefire_dir java_no_reports_env = None" by (simp add: java_no_reports_env_def)
  have e: "detect_language [] [] (Some ''java'') = ''java''" by code_simp
  from C2_absent_reports_empty_summary [OF a b c d e, where timeout = 120] a b c d e
  show ?thesis by simp
qed

section \<open>Results on timeouts\<close>

text \<open>
  C5, as stated: whenever the container run times out, on each of the three pipelines,
  the executor issues \<^verbatim>\<open>docker kill\<close> and returns a result with \<open>success\<close> false, a negative
  exit code and an error text that mentions the timeout. The kill is called unguarded in
  the handler of the timeout: when it raises, the JavaScript executor is left by that
  exception and the orchestrator returns its text as \<open>errors\<close>, and on the Python path the
  exception leaves the orchestrator, which returns nothing.
\<close>

theorem C5_kill_raises_counterexample:
  "run kill_raises_env = TimeoutExpired
   \<and> commands (execute_tests_in_docker kill_raises_env [] [] (Some ''javascript'') 120)
       = [DockerRun ''genai-test-01234567'', DockerKill ''genai-test-01234567'']
   \<and> is_returned (result (execute_tests_in_docker kill_raises_env [] [] (Some ''javascript'') 120))
   \<and> errors (returned (result (execute_tests_in_docker kill_raises_env [] [] (Some ''javascript'') 120)))
       = Text ''[Errno 12] Cannot allocate memory''
   \<and> \<not> isin ''timed out'' ''[Errno 12] Cannot allocate memory''
   \<and> result (execute_tests_in_docker kill_raises_env ''assert True'' ''x = 1'' (Some ''python'') 120)
       = Raised ''[Errno 12] Cannot allocate memory''"
proof -
  have l: "detect_language [] [] (Some ''javascript'') = ''javascript''"
    "detect_language ''x = 1'' ''assert True'' (Some ''python'') = ''python''"
    by code_simp+
  have e: "mkdir_error kill_raises_env = None" "prepare_error kill_raises_env = None"
    "run kill_raises_env = TimeoutExpired"
    "kill kill_raises_env = KillRaised ''[Errno 12] Cannot allocate memory''"
    "uuid_hex kill_raises_env = ''0123456789abcdef0123456789abcdef''"
    "job_path kill_raises_env = ''/tmp/genai_exec_k3v9x2''" "existing kill_raises_env = {}"
    "rmtree_error kill_raises_env = None"
    by (simp_all add: kill_raises_env_def)
  have n: "\<not> isin ''timed out'' ''[Errno 12] Cannot allocate memory''"
    by code_simp
  show ?thesis
    using n
    by (simp add: execute_tests_in_docker_def route_def create_job_dir_def execute_javascript_tests_def
          run_container_timeout caught_def exception_result_def cleanup_def l e Let_def
          case_prod_beta del: isin.simps)
qed

text \<open>
  C5, amended: whenever the container run times out, on each of the three pipelines, the
  executor calls \<^verbatim>\<open>docker kill\<close> with the name the container was started under; when that
  call returns, the executor returns a result with \<open>success\<close> false, exit code \<open>-1\<close> and
  the error text \<^verbatim>\<open>Execution timed out after {timeout}s\<close>, which mentions the timeout.
\<close>

theorem C5_timeout_kills_and_fails:
  assumes "mkdir_error env = None" and "prepare_error env = None"
    and "run env = TimeoutExpired"
  shows "let out = execute_tests_in_docker env test_code source_code language timeout;
             cname = ''genai-test-'' @ take 8 (uuid_hex env) in
         commands out = [DockerRun cname, DockerKill cname]
         \<and> (kill env = KillReturned \<longrightarrow>
              is_returned (result out)
              \<and> success (returned (result out)) = False
              \<and> exit_code (returned (result out)) = -1
              \<and> errors (returned (result out))
                  = Text (''Execution timed out after '' @ show_int timeout @ ''s'')
              \<and> isin ''timed out'' (''Execution timed out after '' @ show_int timeout @ ''s''))"
proof -
  have "isin ''timed out'' (''Execution '' @ ''timed out'' @ '' after '' @ show_int timeout @ ''s'')"
    by (rule isin_middle)
  then have m: "isin ''timed out'' (''Execution timed out after '' @ show_int timeout @ ''s'')"
    by simp
  show ?thesis
    using assms m
    by (cases "kill env")
      (simp_all add: execute_tests_in_docker_def route_def create_job_dir_def execute_java_tests_def
          execute_javascript_tests_def run_container_timeout caught_def timeout_result_def
          Let_def case_prod_beta del: isin.simps)
qed

theorem C5_timeout_kills_and_fails_witness:
  "mkdir_error timeout_env = None \<and> prepare_error timeout_env = None
   \<and> run timeout_env = TimeoutExpired \<and> kill timeout_env = KillReturned
   \<and> commands (execute_tests_in_docker timeout_env ''assert True'' ''x = 1'' None 1)
       = [DockerRun ''genai-test-01234567'', DockerKill ''genai-test-01234567'']
   \<and> is_returned (result (execute_tests_in_docker timeout_env ''assert True'' ''x = 1'' None 1))
   \<and> \<not> success (returned (result (execute_tests_in_docker timeout_env ''assert True'' ''x = 1'' None 1)))
   \<and> exit_code (returned (result (execute_tests_in_docker timeout_env ''assert True'' ''x = 1'' None 1)))
       = -1
   \<and> errors (returned (result (execute_tests_in_docker timeout_env ''assert True'' ''x = 1'' None 1)))
       = Text ''Execution timed out after 1s''"
proof -
  have a: "mkdir_error timeout_env = None" by (simp add: timeout_env_def)
  have b: "prepare_error timeout_env = None" by (simp add: timeout_env_def)
  have c: "run timeout_env = TimeoutExpired" by (simp add: timeout_env_def)
  have k: "kill timeout_env = KillReturned" by (simp add: timeout_env_def)
  have d: "take 8 (uuid_hex timeout_env) = ''01234567''" by (simp add: timeout_env_def)
  have s: "show_int 1 = ''1''" by code_simp
  from C5_timeout_kills_and_fails [OF a b c, of "''assert True''" "''x = 1''" None 1] a b c k d s
  show ?thesis by (simp add: Let_def del: isin.simps)
qed

section \<open>Results on cleanup\<close>




section \<open>Results on outcomes that are not passed\<close>

text \<open>
  C10, as stated: the JavaScript parsers map every outcome that is not passed to
  \<open>failed\<close>, so that a run with only pending or skipped tests has \<open>success\<close> false. The
  parsers of verbose text keep the lines that start with a check mark or a cross and
  nothing else: a Jasmine run with one pending spec, exit code 0, has an empty
  structured list and is a success.
\<close>

theorem C10_pending_only_counterexample:
  "result (execute_tests_in_docker jasmine_pending_env [] [] (Some ''javascript'') 120)
     = Returned \<lparr>success = True, exit_code = 0,
         raw_output = ''Started'' @ CHR 0x0A # ''*'' @ CHR 0x0A # ''1 spec, 0 failures, 1 pending spec'',
         errors = Text [], xml_reports = Some [],
         test_results_json = Some (JsResults
           \<lparr>total = 0, passed = 0, failed = 0, skipped = 0, failures = [], tests = []\<rparr>),
         container_name = None\<rparr>"
proof -
  have l: "detect_language [] [] (Some ''javascript'') \<in> set [''javascript'', ''typescript'']"
    by code_simp
  have e: "mkdir_error jasmine_pending_env = None" "prepare_error jasmine_pending_env = None"
    "run jasmine_pending_env
       = Completed 0 (''Started'' @ CHR 0x0A # ''*'' @ CHR 0x0A # ''1 spec, 0 failures, 1 pending spec'') []"
    by (simp_all add: jasmine_pending_env_def)
  have c: "js_completed jasmine_pending_env 0
        (''Started'' @ CHR 0x0A # ''*'' @ CHR 0x0A # ''1 spec, 0 failures, 1 pending spec'') []
     = Inr \<lparr>success = True, exit_code = 0,
         raw_output = ''Started'' @ CHR 0x0A # ''*'' @ CHR 0x0A # ''1 spec, 0 failures, 1 pending spec'',
         errors = Text [], xml_reports = Some [],
         test_results_json = Some (JsResults
           \<lparr>total = 0, passed = 0, failed = 0, skipped = 0, failures = [], tests = []\<rparr>),
         container_name = None\<rparr>"
    by code_simp
  show ?thesis
    unfolding execute_js_returned [OF e l] c by simp
qed

text \<open>
  C10, amended: the converters of the Mocha and the Jest report map every outcome that
  is not passed to \<open>failed\<close>. The list made from a Mocha report is the entries of
  \<^verbatim>\<open>passes\<close>, all passed, then those of \<^verbatim>\<open>failures\<close>, all failed, then those of \<^verbatim>\<open>pending\<close>,
  all failed with the error \<^verbatim>\<open>Test was pending/skipped\<close>, one entry for each item of the
  report. The list made from a Jest report has one entry for each assertion result of
  each suite, passed exactly when the status of the assertion is the text \<^verbatim>\<open>passed\<close>
  and failed otherwise. A completed Mocha or Jest run whose report is decoded and gives
  a non-empty list has the \<open>success\<close> flag that says whether all entries are passed,
  whatever the exit code: with only pending entries, or with no passed assertion, it is
  false.
\<close>

theorem C10_non_passed_outcomes_fail:
  "(mocha_json_to_tests report = Inr ts \<longrightarrow>
      (\<exists>ps fs qs. ts = ps @ fs @ qs
         \<and> mocha_section report ''passes'' mocha_pass_case = Inr ps
         \<and> mocha_section report ''failures'' mocha_failure_case = Inr fs
         \<and> mocha_section report ''pending'' mocha_pending_case = Inr qs
         \<and> list_all (\<lambda>t. status t = ''passed'') ps
         \<and> list_all (\<lambda>t. status t = ''failed'') fs
         \<and> list_all (\<lambda>t. status t = ''failed''
                           \<and> error t = Value (JStr ''Test was pending/skipped'')) qs))
   \<and> (mocha_section report key to_case = Inr cases
        \<and> dict_get report key (JArr []) = Inr (JArr items)
        \<longrightarrow> list_all2 (\<lambda>t tc. to_case t = Inr tc) items cases)
   \<and> (jest_json_to_tests jreport = Inr jts
        \<and> dict_get jreport ''testResults'' (JArr []) = Inr (JArr suites)
        \<longrightarrow> (\<exists>per_suite. list_all2 (\<lambda>s l. jest_suite s = Inr l) suites per_suite
                \<and> jts = concat per_suite))
   \<and> (jest_suite suite = Inr sts
        \<and> dict_get suite ''testResults'' (JArr []) = Inr (JArr assertions)
        \<longrightarrow> list_all2 (\<lambda>t tc. jest_case t = Inr tc) assertions sts)
   \<and> (jest_case t = Inr tc
        \<longrightarrow> status tc = (if dict_get t ''status'' (JStr ''unknown'') = Inr (JStr ''passed'')
                         then ''passed'' else ''failed''))
   \<and> (mkdir_error env = None \<and> prepare_error env = None \<and> run env = Completed rc out err
        \<and> detect_language source_code test_code language \<in> set [''javascript'', ''typescript'']
        \<and> framework env = Mocha
        \<and> parse_mocha_json (json_loads env) (json_raw_decode env) (out @ [CHR 0x0A] @ err) = Some report
        \<and> mocha_json_to_tests report = Inr ts \<and> ts \<noteq> []
        \<longrightarrow> result (execute_tests_in_docker env test_code source_code language timeout)
              = Returned \<lparr>success = list_all (\<lambda>t. status t = ''passed'') ts,
                  exit_code = rc, raw_output = out, errors = Text err, xml_reports = Some [],
                  test_results_json = Some (JsResults (build_js_test_results ts)),
                  container_name = None\<rparr>
            \<and> (mocha_section report ''passes'' mocha_pass_case = Inr []
                 \<longrightarrow> \<not> list_all (\<lambda>t. status t = ''passed'') ts))
   \<and> (mkdir_error env = None \<and> prepare_error env = None \<and> run env = Completed rc out err
        \<and> detect_language source_code test_code language \<in> set [''javascript'', ''typescript'']
        \<and> framework env = Jest
        \<and> find ''===JEST_JSON_START==='' (out @ [CHR 0x0A] @ err) = Some si
        \<and> find ''===JEST_JSON_END==='' (out @ [CHR 0x0A] @ err) = Some ei
        \<and> json_loads env (strip (slice (si + length ''===JEST_JSON_START==='') ei
                                     (out @ [CHR 0x0A] @ err))) = Some jreport
        \<and> jest_json_to_tests jreport = Inr jts \<and> jts \<noteq> []
        \<longrightarrow> result (execute_tests_in_docker env test_code source_code language timeout)
              = Returned \<lparr>success = list_all (\<lambda>t. status t = ''passed'') jts,
                  exit_code = rc, raw_output = out, errors = Text err, xml_reports = Some [],
                  test_results_json = Some (JsResults (build_js_test_results jts)),
                  container_name = None\<rparr>)"
proof -
  have a: "mocha_json_to_tests report = Inr ts \<Longrightarrow>
      (\<exists>ps fs qs. ts = ps @ fs @ qs
         \<and> mocha_section report ''passes'' mocha_pass_case = Inr ps
         \<and> mocha_section report ''failures'' mocha_failure_case = Inr fs
         \<and> mocha_section report ''pending'' mocha_pending_case = Inr qs
         \<and> list_all (\<lambda>t. status t = ''passed'') ps
         \<and> list_all (\<lambda>t. status t = ''failed'') fs
         \<and> list_all (\<lambda>t. status t = ''failed''
                           \<and> error t = Value (JStr ''Test was pending/skipped'')) qs)"
    by (rule mocha_sections_statuses)
  have b: "mocha_section report key to_case = Inr cases
        \<and> dict_get report key (JArr []) = Inr (JArr items)
        \<Longrightarrow> list_all2 (\<lambda>t tc. to_case t = Inr tc) items cases"
    using mocha_section_items by blast
  have c: "jest_json_to_tests jreport = Inr jts
        \<and> dict_get jreport ''testResults'' (JArr []) = Inr (JArr suites)
        \<Longrightarrow> (\<exists>per_suite. list_all2 (\<lambda>s l. jest_suite s = Inr l) suites per_suite
                \<and> jts = concat per_suite)"
    using jest_json_suites by blast
  have d: "jest_suite suite = Inr sts
        \<and> dict_get suite ''testResults'' (JArr []) = Inr (JArr assertions)
        \<Longrightarrow> list_all2 (\<lambda>t tc. jest_case t = Inr tc) assertions sts"
    using jest_suite_items by blast
  have e: "jest_case t = Inr tc
        \<Longrightarrow> status tc = (if dict_get t ''status'' (JStr ''unknown'') = Inr (JStr ''passed'')
                         then ''passed'' else ''failed'')"
    using jest_case_status [of t tc] by auto
  have f: "result (execute_tests_in_docker env test_code source_code language timeout)
              = Returned \<lparr>success = list_all (\<lambda>t. status t = ''passed'') ts,
                  exit_code = rc, raw_output = out, errors = Text err, xml_reports = Some [],
                  test_results_json = Some (JsResults (build_js_test_results ts)),
                  container_name = None\<rparr>
            \<and> (mocha_section report ''passes'' mocha_pass_case = Inr []
                 \<longrightarrow> \<not> list_all (\<lambda>t. status t = ''passed'') ts)"
    if h: "mkdir_error env = None \<and> prepare_error env = None \<and> run env = Completed rc out err
        \<and> detect_language source_code test_code language \<in> set [''javascript'', ''typescript'']
        \<and> framework env = Mocha
        \<and> parse_mocha_json (json_loads env) (json_raw_decode env) (out @ [CHR 0x0A] @ err) = Some report
        \<and> mocha_json_to_tests report = Inr ts \<and> ts \<noteq> []"
  proof -
    from h have "mocha_tests (json_loads env) (json_raw_decode env) (out @ [CHR 0x0A] @ err) = Inr ts"
      by (intro mocha_tests_json) auto
    with h have "js_parsed_tests (framework env) (json_loads env) (json_raw_decode env)
                   (out @ [CHR 0x0A] @ err) = Inr ts"
      by (simp add: js_parsed_tests_def)
    from js_completed_tests [OF this, of rc] h
    have r: "js_completed env rc out err =
       Inr \<lparr>success = list_all (\<lambda>t. status t = ''passed'') ts,
          exit_code = rc, raw_output = out, errors = Text err, xml_reports = Some [],
          test_results_json = Some (JsResults (build_js_test_results ts)),
          container_name = None\<rparr>"
      by simp
    from h have g: "mkdir_error env = None" "prepare_error env = None"
      "run env = Completed rc out err"
      "detect_language source_code test_code language \<in> set [''javascript'', ''typescript'']"
      by auto
    have x: "result (execute_tests_in_docker env test_code source_code language timeout)
              = Returned \<lparr>success = list_all (\<lambda>t. status t = ''passed'') ts,
                  exit_code = rc, raw_output = out, errors = Text err, xml_reports = Some [],
                  test_results_json = Some (JsResults (build_js_test_results ts)),
                  container_name = None\<rparr>"
      unfolding execute_js_returned [OF g] r by simp
    have y: "\<not> list_all (\<lambda>t. status t = ''passed'') ts"
      if "mocha_section report ''passes'' mocha_pass_case = Inr []"
    proof -
      from h mocha_sections_statuses [of report ts] that obtain fs qs where
        "ts = fs @ qs" "list_all (\<lambda>t. status t = ''failed'') fs"
        "list_all (\<lambda>t. status t = ''failed''
                           \<and> error t = Value (JStr ''Test was pending/skipped'')) qs"
        by auto
      with h show ?thesis by (cases fs; cases qs) auto
    qed
    from x y show ?thesis by blast
  qed
  have g: "result (execute_tests_in_docker env test_code source_code language timeout)
              = Returned \<lparr>success = list_all (\<lambda>t. status t = ''passed'') jts,
                  exit_code = rc, raw_output = out, errors = Text err, xml_reports = Some [],
                  test_results_json = Some (JsResults (build_js_test_results jts)),
                  container_name = None\<rparr>"
    if h: "mkdir_error env = None \<and> prepare_error env = None \<and> run env = Completed rc out err
        \<and> detect_language source_code test_code language \<in> set [''javascript'', ''typescript'']
        \<and> framework env = Jest
        \<and> find ''===JEST_JSON_START==='' (out @ [CHR 0x0A] @ err) = Some si
        \<and> find ''===JEST_JSON_END==='' (out @ [CHR 0x0A] @ err) = Some ei
        \<and> json_loads env (strip (slice (si + length ''===JEST_JSON_START==='') ei
                                     (out @ [CHR 0x0A] @ err))) = Some jreport
        \<and> jest_json_to_tests jreport = Inr jts \<and> jts \<noteq> []"
  proof -
    from h have "jest_tests (json_loads env) (out @ [CHR 0x0A] @ err) = Inr jts"
      by (intro jest_tests_delimited [where si = si and ei = ei and data = jreport]) auto
    with h have "js_parsed_tests (framework env) (json_loads env) (json_raw_decode env)
                   (out @ [CHR 0x0A] @ err) = Inr jts"
      by (simp add: js_parsed_tests_def)
    from js_completed_tests [OF this, of rc] h
    have r: "js_completed env rc out err =
       Inr \<lparr>success = list_all (\<lambda>t. status t = ''passed'') jts,
          exit_code = rc, raw_output = out, errors = Text err, xml_reports = Some [],
          test_results_json = Some (JsResults (build_js_test_results jts)),
          container_name = None\<rparr>"
      by simp
    from h have k: "mkdir_error env = None" "prepare_error env = None"
      "run env = Completed rc out err"
      "detect_language source_code test_code language \<in> set [''javascript'', ''typescript'']"
      by auto
    show ?thesis
      unfolding execute_js_returned [OF k] r by simp
  qed
  from a b c d e f g show ?thesis by blast
qed

theorem C10_non_passed_outcomes_fail_witness:
  "mocha_json_to_tests mocha_data
     = Inr [\<lparr>name = JStr ''calc adds'', status = ''failed'', duration = 0,
             description = JStr ''calc adds'', error = Value (JStr ''Test was pending/skipped'')\<rparr>]
   \<and> result (execute_tests_in_docker mocha_pending_env [] [] (Some ''javascript'') 120)
     = Returned \<lparr>success = False, exit_code = 0,
         raw_output = ''===MOCHA_JSON_START==='' @ CHR 0x0A # mocha_blob @ CHR 0x0A # ''===MOCHA_JSON_END==='',
         errors = Text [], xml_reports = Some [],
         test_results_json = Some (JsResults (build_js_test_results
           [\<lparr>name = JStr ''calc adds'', status = ''failed'', duration = 0,
             description = JStr ''calc adds'', error = Value (JStr ''Test was pending/skipped'')\<rparr>])),
         container_name = None\<rparr>
   \<and> jest_json_to_tests jest_skipped_data
     = Inr [\<lparr>name = JStr ''adds'', status = ''failed'', duration = 0,
             description = JStr ''adds'', error = Value JNull\<rparr>,
            \<lparr>name = JStr ''later'', status = ''failed'', duration = 0,
             description = JStr ''later'', error = Value JNull\<rparr>]
   \<and> result (execute_tests_in_docker jest_skipped_env [] [] (Some ''javascript'') 120)
     = Returned \<lparr>success = False, exit_code = 0,
         raw_output = ''===JEST_JSON_START==='' @ CHR 0x0A # jest_skipped_blob @ CHR 0x0A # ''===JEST_JSON_END==='',
         errors = Text [], xml_reports = Some [],
         test_results_json = Some (JsResults (build_js_test_results
           [\<lparr>name = JStr ''adds'', status = ''failed'', duration = 0,
             description = JStr ''adds'', error = Value JNull\<rparr>,
            \<lparr>name = JStr ''later'', status = ''failed'', duration = 0,
             description = JStr ''later'', error = Value JNull\<rparr>])),
         container_name = None\<rparr>"
proof -
  have l: "detect_language [] [] (Some ''javascript'') \<in> set [''javascript'', ''typescript'']"
    by code_simp
  have m: "mkdir_error mocha_pending_env = None \<and> prepare_error mocha_pending_env = None
     \<and> run mocha_pending_env = Completed 0
          (''===MOCHA_JSON_START==='' @ CHR 0x0A # mocha_blob @ CHR 0x0A # ''===MOCHA_JSON_END==='') []
     \<and> framework mocha_pending_env = Mocha"
    by (simp add: mocha_pending_env_def)
  have mp: "parse_mocha_json (json_loads mocha_pending_env) (json_raw_decode mocha_pending_env)
              ((''===MOCHA_JSON_START==='' @ CHR 0x0A # mocha_blob @ CHR 0x0A # ''===MOCHA_JSON_END==='')
               @ [CHR 0x0A] @ []) = Some mocha_data"
    by code_simp
  have mt: "mocha_json_to_tests mocha_data
     = Inr [\<lparr>name = JStr ''calc adds'', status = ''failed'', duration = 0,
             description = JStr ''calc adds'', error = Value (JStr ''Test was pending/skipped'')\<rparr>]"
    by code_simp
  have ms: "mocha_section mocha_data ''passes'' mocha_pass_case = Inr []"
    by code_simp
  have j: "mkdir_error jest_skipped_env = None \<and> prepare_error jest_skipped_env = None
     \<and> run jest_skipped_env = Completed 0
          (''===JEST_JSON_START==='' @ CHR 0x0A # jest_skipped_blob @ CHR 0x0A # ''===JEST_JSON_END==='') []
     \<and> framework jest_skipped_env = Jest"
    by (simp add: jest_skipped_env_def)
  have jf: "find ''===JEST_JSON_START===''
              ((''===JEST_JSON_START==='' @ CHR 0x0A # jest_skipped_blob @ CHR 0x0A # ''===JEST_JSON_END==='')
               @ [CHR 0x0A] @ []) = Some 0
     \<and> find ''===JEST_JSON_END===''
              ((''===JEST_JSON_START==='' @ CHR 0x0A # jest_skipped_blob @ CHR 0x0A # ''===JEST_JSON_END==='')
               @ [CHR 0x0A] @ []) = Some 134
     \<and> json_loads jest_skipped_env (strip (slice (0 + length ''===JEST_JSON_START==='') 134
              ((''===JEST_JSON_START==='' @ CHR 0x0A # jest_skipped_blob @ CHR 0x0A # ''===JEST_JSON_END==='')
               @ [CHR 0x0A] @ []))) = Some jest_skipped_data"
    by code_simp
  have jt: "jest_json_to_tests jest_skipped_data
     = Inr [\<lparr>name = JStr ''adds'', status = ''failed'', duration = 0,
             description = JStr ''adds'', error = Value JNull\<rparr>,
            \<lparr>name = JStr ''later'', status = ''failed'', duration = 0,
             description = JStr ''later'', error = Value JNull\<rparr>]"
    by code_simp
  from C10_non_passed_outcomes_fail
    [where report = mocha_data and env = mocha_pending_env and rc = 0 and err = "[]"
       and out = "''===MOCHA_JSON_START==='' @ CHR 0x0A # mocha_blob @ CHR 0x0A # ''===MOCHA_JSON_END===''"
       and source_code = "[]" and test_code = "[]" and language = "Some ''javascript''"
       and timeout = 120
       and ts = "[\<lparr>name = JStr ''calc adds'', status = ''failed'', duration = 0,
             description = JStr ''calc adds'', error = Value (JStr ''Test was pending/skipped'')\<rparr>]"]
    l m mp mt ms
  have a: "result (execute_tests_in_docker mocha_pending_env [] [] (Some ''javascript'') 120)
     = Returned \<lparr>success = False, exit_code = 0,
         raw_output = ''===MOCHA_JSON_START==='' @ CHR 0x0A # mocha_blob @ CHR 0x0A # ''===MOCHA_JSON_END==='',
         errors = Text [], xml_reports = Some [],
         test_results_json = Some (JsResults (build_js_test_results
           [\<lparr>name = JStr ''calc adds'', status = ''failed'', duration = 0,
             description = JStr ''calc adds'', error = Value (JStr ''Test was pending/skipped'')\<rparr>])),
         container_name = None\<rparr>"
    by simp
  from C10_non_passed_outcomes_fail
    [where jreport = jest_skipped_data and env = jest_skipped_env and rc = 0 and err = "[]"
       and out = "''===JEST_JSON_START==='' @ CHR 0x0A # jest_skipped_blob @ CHR 0x0A # ''===JEST_JSON_END===''"
       and source_code = "[]" and test_code = "[]" and language = "Some ''javascript''"
       and timeout = 120 and si = 0 and ei = 134
       and jts = "[\<lparr>name = JStr ''adds'', status = ''failed'', duration = 0,
             description = JStr ''adds'', error = Value JNull\<rparr>,
            \<lparr>name = JStr ''later'', status = ''failed'', duration = 0,
             description = JStr ''later'', error = Value JNull\<rparr>]"]
    l j jf jt
  have b: "result (execute_tests_in_docker jest_skipped_env [] [] (Some ''javascript'') 120)
     = Returned \<lparr>success = False, exit_code = 0,
         raw_output = ''===JEST_JSON_START==='' @ CHR 0x0A # jest_skipped_blob @ CHR 0x0A # ''===JEST_JSON_END==='',
         errors = Text [], xml_reports = Some [],
         test_results_json = Some (JsResults (build_js_test_results
           [\<lparr>name = JStr ''adds'', status = ''failed'', duration = 0,
             description = JStr ''adds'', error = Value JNull\<rparr>,
            \<lparr>name = JStr ''later'', status = ''failed'', duration = 0,
             description = JStr ''later'', error = Value JNull\<rparr>])),
         container_name = None\<rparr>"
    by simp
  from mt a jt b show ?thesis by simp
qed

section \<open>Results on the structured list of a failed run\<close>

text \<open>
  C3, as stated: a run with a non-zero exit code and a non-empty raw stdout has a
  non-empty structured test list. The Mocha strategy makes up an entry only when the
  stdout holds neither \<^verbatim>\<open>"stats"\<close> nor \<^verbatim>\<open>"passes"\<close>: a run that exits with code 1 after
  Mocha has reported that it ran no test returns an empty list.
\<close>

theorem C3_mocha_report_counterexample:
  "result (execute_tests_in_docker mocha_empty_env [] [] (Some ''javascript'') 120)
     = Returned \<lparr>success = False, exit_code = 1,
         raw_output = ''===MOCHA_JSON_START==='' @ CHR 0x0A # mocha_empty_blob @ CHR 0x0A # ''===MOCHA_JSON_END==='',
         errors = Text [], xml_reports = Some [],
         test_results_json = Some (JsResults
           \<lparr>total = 0, passed = 0, failed = 0, skipped = 0, failures = [], tests = []\<rparr>),
         container_name = None\<rparr>"
proof -
  have l: "detect_language [] [] (Some ''javascript'') \<in> set [''javascript'', ''typescript'']"
    by code_simp
  have e: "mkdir_error mocha_empty_env = None" "prepare_error mocha_empty_env = None"
    "run mocha_empty_env = Completed 1
       (''===MOCHA_JSON_START==='' @ CHR 0x0A # mocha_empty_blob @ CHR 0x0A # ''===MOCHA_JSON_END==='') []"
    by (simp_all add: mocha_empty_env_def)
  have c: "js_completed mocha_empty_env 1
        (''===MOCHA_JSON_START==='' @ CHR 0x0A # mocha_empty_blob @ CHR 0x0A # ''===MOCHA_JSON_END==='') []
     = Inr \<lparr>success = False, exit_code = 1,
         raw_output = ''===MOCHA_JSON_START==='' @ CHR 0x0A # mocha_empty_blob @ CHR 0x0A # ''===MOCHA_JSON_END==='',
         errors = Text [], xml_reports = Some [],
         test_results_json = Some (JsResults
           \<lparr>total = 0, passed = 0, failed = 0, skipped = 0, failures = [], tests = []\<rparr>),
         container_name = None\<rparr>"
    by code_simp
  show ?thesis
    unfolding execute_js_returned [OF e l] c by simp
qed

text \<open>
  C3, amended: the pytest parser, when it returns, returns a non-empty list: when no
  line of the stdout names a test and the stdout has no summary of passed tests, the
  list is the single entry \<^verbatim>\<open>test_execution\<close>, which for a non-zero exit code is failed
  with the error \<^verbatim>\<open>Check raw output\<close>; the parser raises only when the conversion of a
  count of the summary raises. A completed Mocha run whose raw stdout holds neither
  \<^verbatim>\<open>"stats"\<close> nor \<^verbatim>\<open>"passes"\<close> returns a non-empty structured list, or, when a parser
  raises, the result of the exception handler, which has no structured list; when no
  report is found and the verbose text holds no test line, the list is the single made-up
  failed entry \<^verbatim>\<open>Test suite failed to run\<close>.
\<close>

theorem C3_fallback_entries:
  "(parse_pytest_output stdout code = Inr ts \<longrightarrow> ts \<noteq> [])
   \<and> (concat (map pytest_line (split_from [] stdout)) = [] \<and> summary_tests stdout = Inr []
        \<longrightarrow> parse_pytest_output stdout code = Inr [execution_case code])
   \<and> (code \<noteq> 0 \<longrightarrow>
         execution_case code
           = \<lparr>name = JStr ''test_execution'', status = ''failed'', duration = 0,
              description = JStr ''Test execution'', error = Value (JStr ''Check raw output'')\<rparr>)
   \<and> (parse_pytest_output stdout code = Inl e
        \<longleftrightarrow> concat (map pytest_line (split_from [] stdout)) = [] \<and> summary_tests stdout = Inl e)
   \<and> (mkdir_error env = None \<and> prepare_error env = None \<and> run env = Completed rc out err
        \<and> detect_language source_code test_code language \<in> set [''javascript'', ''typescript'']
        \<and> framework env = Mocha
        \<and> \<not> isin ''\"stats\"'' (out @ [CHR 0x0A] @ err) \<and> \<not> isin ''\"passes\"'' (out @ [CHR 0x0A] @ err)
        \<longrightarrow> (\<exists>xs. xs \<noteq> []
               \<and> result (execute_tests_in_docker env test_code source_code language timeout)
                 = Returned \<lparr>success = list_all (\<lambda>t. status t = ''passed'') xs,
                     exit_code = rc, raw_output = out, errors = Text err, xml_reports = Some [],
                     test_results_json = Some (JsResults (build_js_test_results xs)),
                     container_name = None\<rparr>)
            \<or> (\<exists>x. result (execute_tests_in_docker env test_code source_code language timeout)
                 = Returned \<lparr>success = False, exit_code = -1, raw_output = [],
                     errors = ExceptionText x, xml_reports = None, test_results_json = None,
                     container_name = None\<rparr>))
   \<and> (mkdir_error env = None \<and> prepare_error env = None \<and> run env = Completed rc out err
        \<and> detect_language source_code test_code language \<in> set [''javascript'', ''typescript'']
        \<and> framework env = Mocha
        \<and> \<not> isin ''\"stats\"'' (out @ [CHR 0x0A] @ err) \<and> \<not> isin ''\"passes\"'' (out @ [CHR 0x0A] @ err)
        \<and> parse_mocha_json (json_loads env) (json_raw_decode env) (out @ [CHR 0x0A] @ err) = None
        \<and> parse_jest_text (out @ [CHR 0x0A] @ err) = Inr []
        \<longrightarrow> result (execute_tests_in_docker env test_code source_code language timeout)
              = Returned \<lparr>success = False,
                  exit_code = rc, raw_output = out, errors = Text err, xml_reports = Some [],
                  test_results_json = Some (JsResults (build_js_test_results
                     [suite_failed_entry (out @ [CHR 0x0A] @ err)])),
                  container_name = None\<rparr>
            \<and> status (suite_failed_entry (out @ [CHR 0x0A] @ err)) = ''failed'')"
proof -
  define raw where "raw = out @ [CHR 0x0A] @ err"
  have a: "parse_pytest_output stdout code = Inr ts \<Longrightarrow> ts \<noteq> []"
    by (auto simp add: parse_pytest_output_def Let_def and_then_Inr split: if_splits)
  have b: "concat (map pytest_line (split_from [] stdout)) = [] \<and> summary_tests stdout = Inr []
        \<Longrightarrow> parse_pytest_output stdout code = Inr [execution_case code]"
    by (simp add: parse_pytest_output_def Let_def and_then_def)
  have c: "code \<noteq> 0 \<Longrightarrow>
         execution_case code
           = \<lparr>name = JStr ''test_execution'', status = ''failed'', duration = 0,
              description = JStr ''Test execution'', error = Value (JStr ''Check raw output'')\<rparr>"
    by (simp add: execution_case_def)
  have d: "parse_pytest_output stdout code = Inl e
        \<longleftrightarrow> concat (map pytest_line (split_from [] stdout)) = [] \<and> summary_tests stdout = Inl e"
    by (cases "summary_tests stdout") (auto simp add: parse_pytest_output_def Let_def and_then_def)
  have f: "(\<exists>xs. xs \<noteq> []
               \<and> result (execute_tests_in_docker env test_code source_code language timeout)
                 = Returned \<lparr>success = list_all (\<lambda>t. status t = ''passed'') xs,
                     exit_code = rc, raw_output = out, errors = Text err, xml_reports = Some [],
                     test_results_json = Some (JsResults (build_js_test_results xs)),
                     container_name = None\<rparr>)
            \<or> (\<exists>x. result (execute_tests_in_docker env test_code source_code language timeout)
                 = Returned \<lparr>success = False, exit_code = -1, raw_output = [],
                     errors = ExceptionText x, xml_reports = None, test_results_json = None,
                     container_name = None\<rparr>)"
    if h: "mkdir_error env = None \<and> prepare_error env = None \<and> run env = Completed rc out err
        \<and> detect_language source_code test_code language \<in> set [''javascript'', ''typescript'']
        \<and> framework env = Mocha
        \<and> \<not> isin ''\"stats\"'' raw \<and> \<not> isin ''\"passes\"'' raw"
  proof -
    from h have g: "mkdir_error env = None" "prepare_error env = None"
      "run env = Completed rc out err"
      "detect_language source_code test_code language \<in> set [''javascript'', ''typescript'']"
      by auto
    from h have p: "js_parsed_tests (framework env) (json_loads env) (json_raw_decode env) raw
          = mocha_tests (json_loads env) (json_raw_decode env) raw"
      by (simp add: js_parsed_tests_def)
    show ?thesis
    proof (cases "mocha_tests (json_loads env) (json_raw_decode env) raw")
      case (Inl x)
      with p have "js_completed env rc out err = Inl x"
        unfolding raw_def by (intro js_completed_raises) simp
      then have "result (execute_tests_in_docker env test_code source_code language timeout)
                 = Returned (exception_result (ExceptionText x))"
        unfolding execute_js_returned [OF g] by simp
      then show ?thesis by (auto simp add: exception_result_def)
    next
      case (Inr xs)
      with h have ne: "xs \<noteq> []"
        using mocha_tests_without_markers [of raw "json_loads env" "json_raw_decode env" xs] by blast
      from Inr p have "js_parsed_tests (framework env) (json_loads env) (json_raw_decode env)
                         (out @ [CHR 0x0A] @ err) = Inr xs"
        by (simp add: raw_def)
      from js_completed_tests [OF this, of rc] ne
      have "js_completed env rc out err =
         Inr \<lparr>success = list_all (\<lambda>t. status t = ''passed'') xs,
            exit_code = rc, raw_output = out, errors = Text err, xml_reports = Some [],
            test_results_json = Some (JsResults (build_js_test_results xs)),
            container_name = None\<rparr>"
        by simp
      then have "result (execute_tests_in_docker env test_code source_code language timeout)
                 = Returned \<lparr>success = list_all (\<lambda>t. status t = ''passed'') xs,
                     exit_code = rc, raw_output = out, errors = Text err, xml_reports = Some [],
                     test_results_json = Some (JsResults (build_js_test_results xs)),
                     container_name = None\<rparr>"
        unfolding execute_js_returned [OF g] by simp
      with ne show ?thesis by blast
    qed
  qed
  have s: "result (execute_tests_in_docker env test_code source_code language timeout)
              = Returned \<lparr>success = False,
                  exit_code = rc, raw_output = out, errors = Text err, xml_reports = Some [],
                  test_results_json = Some (JsResults (build_js_test_results [suite_failed_entry raw])),
                  container_name = None\<rparr>
            \<and> status (suite_failed_entry raw) = ''failed''"
    if h: "mkdir_error env = None \<and> prepare_error env = None \<and> run env = Completed rc out err
        \<and> detect_language source_code test_code language \<in> set [''javascript'', ''typescript'']
        \<and> framework env = Mocha
        \<and> \<not> isin ''\"stats\"'' raw \<and> \<not> isin ''\"passes\"'' raw
        \<and> parse_mocha_json (json_loads env) (json_raw_decode env) raw = None
        \<and> parse_jest_text raw = Inr []"
  proof -
    from h have g: "mkdir_error env = None" "prepare_error env = None"
      "run env = Completed rc out err"
      "detect_language source_code test_code language \<in> set [''javascript'', ''typescript'']"
      by auto
    from h have "mocha_tests (json_loads env) (json_raw_decode env) raw = Inr [suite_failed_entry raw]"
      by (intro mocha_tests_synthesised) auto
    with h have "js_parsed_tests (framework env) (json_loads env) (json_raw_decode env)
                   (out @ [CHR 0x0A] @ err) = Inr [suite_failed_entry raw]"
      by (simp add: js_parsed_tests_def raw_def)
    from js_completed_tests [OF this, of rc]
    have "js_completed env rc out err =
       Inr \<lparr>success = False,
          exit_code = rc, raw_output = out, errors = Text err, xml_reports = Some [],
          test_results_json = Some (JsResults (build_js_test_results [suite_failed_entry raw])),
          container_name = None\<rparr>"
      by (simp add: suite_failed_entry_failed)
    then show ?thesis
      unfolding execute_js_returned [OF g] by (simp add: suite_failed_entry_failed)
  qed
  from a b c d f s show ?thesis unfolding raw_def by blast
qed

theorem C3_fallback_entries_witness:
  "parse_pytest_output ''ImportError: boom'' 2
     = Inr [\<lparr>name = JStr ''test_execution'', status = ''failed'', duration = 0,
             description = JStr ''Test execution'', error = Value (JStr ''Check raw output'')\<rparr>]
   \<and> result (execute_tests_in_docker mocha_crash_env [] [] (Some ''javascript'') 120)
     = Returned \<lparr>success = False, exit_code = 1, raw_output = ''Error: boom'', errors = Text [],
         xml_reports = Some [],
         test_results_json = Some (JsResults (build_js_test_results
            [suite_failed_entry (''Error: boom'' @ [CHR 0x0A] @ [])])),
         container_name = None\<rparr>
   \<and> status (suite_failed_entry (''Error: boom'' @ [CHR 0x0A] @ [])) = ''failed''"
proof -
  have p: "concat (map pytest_line (split_from [] ''ImportError: boom'')) = []
           \<and> summary_tests ''ImportError: boom'' = Inr []"
    by code_simp
  have n: "(2::int) \<noteq> 0" by simp
  have l: "detect_language [] [] (Some ''javascript'') \<in> set [''javascript'', ''typescript'']"
    by code_simp
  have m: "mkdir_error mocha_crash_env = None \<and> prepare_error mocha_crash_env = None
     \<and> run mocha_crash_env = Completed 1 ''Error: boom'' []
     \<and> framework mocha_crash_env = Mocha"
    by (simp add: mocha_crash_env_def)
  have k: "\<not> isin ''\"stats\"'' (''Error: boom'' @ [CHR 0x0A] @ [])
     \<and> \<not> isin ''\"passes\"'' (''Error: boom'' @ [CHR 0x0A] @ [])
     \<and> parse_mocha_json (json_loads mocha_crash_env) (json_raw_decode mocha_crash_env)
          (''Error: boom'' @ [CHR 0x0A] @ []) = None
     \<and> parse_jest_text (''Error: boom'' @ [CHR 0x0A] @ []) = Inr []"
    by code_simp
  from C3_fallback_entries
    [where stdout = "''ImportError: boom''" and code = 2 and env = mocha_crash_env and rc = 1
       and out = "''Error: boom''" and err = "[]" and source_code = "[]" and test_code = "[]"
       and language = "Some ''javascript''" and timeout = 120]
    p n l m k
  show ?thesis by simp
qed

end
